theory Spec2Isabelle
  imports Main "HOL-Library.AList"
begin

section \<open>Values, errors and streams\<close>

text \<open>
  The queries of \<^verbatim>\<open>_queries.py\<close> are ReQL expressions over the system tables of the
  \<^verbatim>\<open>rethinkdb\<close> database. Rows and everything nested in them are untyped JSON values. An
  object is an association list: a field is read with \<open>map_of\<close>, so the first binding of a
  key is the one that counts.
\<close>

datatype json =
    JNull
  | JBool bool
  | JNum int
  | JStr string
  | JArr "json list"
  | JObj "(string \<times> json) list"

text \<open>
  A ReQL term either returns a value or raises. \<open>ReqlNonExistenceError\<close> is the error of a
  missing field, of an index out of bounds and of a term applied to \<open>null\<close>; it is the only
  error that \<^verbatim>\<open>default\<close>, \<^verbatim>\<open>filter\<close> and \<^verbatim>\<open>eq_join\<close> absorb.
  \<open>ReqlQueryLogicError\<close> stands for every other runtime error of a term (a type error).
  \<open>KeyError\<close> is Python's, for \<^verbatim>\<open>row['left']\<close> on the dictionaries the driver returns.
\<close>

datatype error = ReqlNonExistenceError | ReqlQueryLogicError | KeyError

type_synonym 'a reql = "error + 'a"

definition reql_bind :: "'a reql \<Rightarrow> ('a \<Rightarrow> 'b reql) \<Rightarrow> 'b reql" where
  "reql_bind m f = (case m of Inl e \<Rightarrow> Inl e | Inr v \<Rightarrow> f v)"

text \<open>A stream (a table, or the result of a term mapped over one) is a list of values.\<close>

fun reql_map :: "('a \<Rightarrow> 'b reql) \<Rightarrow> 'a list \<Rightarrow> 'b list reql" where
  "reql_map f [] = Inr []"
| "reql_map f (x # xs) =
     reql_bind (f x) (\<lambda>y. reql_bind (reql_map f xs) (\<lambda>ys. Inr (y # ys)))"

definition reql_concat_map :: "('a \<Rightarrow> 'b list reql) \<Rightarrow> 'a list \<Rightarrow> 'b list reql" where
  "reql_concat_map f xs = reql_bind (reql_map f xs) (\<lambda>yss. Inr (concat yss))"

section \<open>The ReQL terms the queries use\<close>

text \<open>
  \<^verbatim>\<open>value[k]\<close>: the field of an object. On an array the term is mapped over the elements,
  skipping those without the field.
\<close>

fun bracket :: "json \<Rightarrow> string \<Rightarrow> json reql"
  and bracket_seq :: "json list \<Rightarrow> string \<Rightarrow> json list reql" where
  "bracket (JObj fs) k =
     (case map_of fs k of Some v \<Rightarrow> Inr v | None \<Rightarrow> Inl ReqlNonExistenceError)"
| "bracket JNull k = Inl ReqlNonExistenceError"
| "bracket (JArr xs) k = reql_bind (bracket_seq xs k) (\<lambda>vs. Inr (JArr vs))"
| "bracket (JBool b) k = Inl ReqlQueryLogicError"
| "bracket (JNum n) k = Inl ReqlQueryLogicError"
| "bracket (JStr s) k = Inl ReqlQueryLogicError"
| "bracket_seq [] k = Inr []"
| "bracket_seq (x # xs) k =
     (case bracket x k of
        Inl ReqlNonExistenceError \<Rightarrow> bracket_seq xs k
      | Inl e \<Rightarrow> Inl e
      | Inr v \<Rightarrow> reql_bind (bracket_seq xs k) (\<lambda>vs. Inr (v # vs)))"

text \<open>\<^verbatim>\<open>value.nth(i)\<close>: the element of an array, an error when the index is out of bounds.\<close>

fun reql_nth :: "json \<Rightarrow> nat \<Rightarrow> json reql" where
  "reql_nth (JArr xs) i = (if i < length xs then Inr (xs ! i) else Inl ReqlNonExistenceError)"
| "reql_nth JNull i = Inl ReqlNonExistenceError"
| "reql_nth (JBool b) i = Inl ReqlQueryLogicError"
| "reql_nth (JNum n) i = Inl ReqlQueryLogicError"
| "reql_nth (JStr s) i = Inl ReqlQueryLogicError"
| "reql_nth (JObj fs) i = Inl ReqlQueryLogicError"

text \<open>\<^verbatim>\<open>a == b\<close> on ReQL values.\<close>

definition reql_eq :: "json \<Rightarrow> json \<Rightarrow> json" where
  "reql_eq a b = JBool (a = b)"

text \<open>A value used as the sequence of \<^verbatim>\<open>map\<close>: only an array is one.\<close>

fun as_seq :: "json \<Rightarrow> json list reql" where
  "as_seq (JArr xs) = Inr xs"
| "as_seq JNull = Inl ReqlNonExistenceError"
| "as_seq (JBool b) = Inl ReqlQueryLogicError"
| "as_seq (JNum n) = Inl ReqlQueryLogicError"
| "as_seq (JStr s) = Inl ReqlQueryLogicError"
| "as_seq (JObj fs) = Inl ReqlQueryLogicError"

text \<open>
  The selectors of \<^verbatim>\<open>pluck\<close> that occur in the queries: a field name, or
  \<^verbatim>\<open>{'shards': ['replicas']}\<close>, which keeps of the field \<^verbatim>\<open>shards\<close> only the named
  sub-fields. A field that the object does not have is left out. Under a nested selector
  the value is an object or an array of objects; when it is anything else the field is
  left out as well.
\<close>

datatype selector = FieldSel string | NestedSel string "string list"

definition pluck_fields :: "string list \<Rightarrow> (string \<times> json) list \<Rightarrow> (string \<times> json) list" where
  "pluck_fields ks fs = List.map_filter (\<lambda>k. map_option (Pair k) (map_of fs k)) ks"

fun pluck_nested_elem :: "string list \<Rightarrow> json \<Rightarrow> json option" where
  "pluck_nested_elem ks (JObj fs) = Some (JObj (pluck_fields ks fs))"
| "pluck_nested_elem ks JNull = None"
| "pluck_nested_elem ks (JBool b) = None"
| "pluck_nested_elem ks (JNum n) = None"
| "pluck_nested_elem ks (JStr s) = None"
| "pluck_nested_elem ks (JArr xs) = None"

fun pluck_nested_elems :: "string list \<Rightarrow> json list \<Rightarrow> json list option" where
  "pluck_nested_elems ks [] = Some []"
| "pluck_nested_elems ks (x # xs) =
     (case pluck_nested_elem ks x of
        None \<Rightarrow> None
      | Some y \<Rightarrow> map_option ((#) y) (pluck_nested_elems ks xs))"

fun pluck_nested :: "string list \<Rightarrow> json \<Rightarrow> json option" where
  "pluck_nested ks (JArr xs) = map_option JArr (pluck_nested_elems ks xs)"
| "pluck_nested ks (JObj fs) = Some (JObj (pluck_fields ks fs))"
| "pluck_nested ks JNull = None"
| "pluck_nested ks (JBool b) = None"
| "pluck_nested ks (JNum n) = None"
| "pluck_nested ks (JStr s) = None"

fun pluck_selector :: "(string \<times> json) list \<Rightarrow> selector \<Rightarrow> (string \<times> json) list" where
  "pluck_selector fs (FieldSel k) =
     (case map_of fs k of Some v \<Rightarrow> [(k, v)] | None \<Rightarrow> [])"
| "pluck_selector fs (NestedSel k ks) =
     (case map_of fs k of
        None \<Rightarrow> []
      | Some v \<Rightarrow> (case pluck_nested ks v of Some w \<Rightarrow> [(k, w)] | None \<Rightarrow> []))"

definition pluck_obj :: "selector list \<Rightarrow> (string \<times> json) list \<Rightarrow> (string \<times> json) list" where
  "pluck_obj sels fs = concat (map (pluck_selector fs) sels)"

text \<open>\<^verbatim>\<open>value.pluck(...)\<close>: on an object; on an array, on each of its elements.\<close>

fun reql_pluck :: "selector list \<Rightarrow> json \<Rightarrow> json reql"
  and reql_pluck_seq :: "selector list \<Rightarrow> json list \<Rightarrow> json list reql" where
  "reql_pluck sels (JObj fs) = Inr (JObj (pluck_obj sels fs))"
| "reql_pluck sels JNull = Inl ReqlNonExistenceError"
| "reql_pluck sels (JArr xs) = reql_bind (reql_pluck_seq sels xs) (\<lambda>ys. Inr (JArr ys))"
| "reql_pluck sels (JBool b) = Inl ReqlQueryLogicError"
| "reql_pluck sels (JNum n) = Inl ReqlQueryLogicError"
| "reql_pluck sels (JStr s) = Inl ReqlQueryLogicError"
| "reql_pluck_seq sels [] = Inr []"
| "reql_pluck_seq sels (x # xs) =
     reql_bind (reql_pluck sels x)
       (\<lambda>y. reql_bind (reql_pluck_seq sels xs) (\<lambda>ys. Inr (y # ys)))"

text \<open>\<^verbatim>\<open>row.without(k)\<close> on a row of a stream.\<close>

fun reql_without :: "string \<Rightarrow> json \<Rightarrow> json reql" where
  "reql_without k (JObj fs) = Inr (JObj (AList.delete k fs))"
| "reql_without k JNull = Inl ReqlNonExistenceError"
| "reql_without k (JBool b) = Inl ReqlQueryLogicError"
| "reql_without k (JNum n) = Inl ReqlQueryLogicError"
| "reql_without k (JStr s) = Inl ReqlQueryLogicError"
| "reql_without k (JArr xs) = Inl ReqlQueryLogicError"

text \<open>
  \<^verbatim>\<open>row.merge(obj)\<close>: the fields of \<open>obj\<close> are added to the row, and win over the row's
  own field of the same name, except that where both values are objects they are merged
  in turn.
\<close>

fun merge_val :: "json \<Rightarrow> json \<Rightarrow> json"
  and merge_fields :: "(string \<times> json) list \<Rightarrow> (string \<times> json) list \<Rightarrow> (string \<times> json) list" where
  "merge_val l (JObj rs) = (case l of JObj ls \<Rightarrow> JObj (merge_fields ls rs) | _ \<Rightarrow> JObj rs)"
| "merge_val l JNull = JNull"
| "merge_val l (JBool b) = JBool b"
| "merge_val l (JNum n) = JNum n"
| "merge_val l (JStr s) = JStr s"
| "merge_val l (JArr xs) = JArr xs"
| "merge_fields ls [] = ls"
| "merge_fields ls ((k, v) # rs) =
     merge_fields
       (AList.update k (case map_of ls k of Some lv \<Rightarrow> merge_val lv v | None \<Rightarrow> v) ls) rs"

fun reql_merge :: "json \<Rightarrow> json \<Rightarrow> json reql" where
  "reql_merge (JObj ls) (JObj rs) = Inr (JObj (merge_fields ls rs))"
| "reql_merge JNull r = Inl ReqlNonExistenceError"
| "reql_merge l r = Inl ReqlQueryLogicError"

text \<open>
  A table is a list of documents with the primary key \<^verbatim>\<open>id\<close>.
  \<^verbatim>\<open>table.get(key)\<close>: the row whose primary key is \<open>key\<close>, or \<open>null\<close>. On the system
  tables a key that is no row's key gives \<open>null\<close>, whatever its type.
\<close>

fun primary_key :: "json \<Rightarrow> json option" where
  "primary_key (JObj fs) = map_of fs ''id''"
| "primary_key v = None"

definition reql_get :: "json list \<Rightarrow> json \<Rightarrow> json" where
  "reql_get tbl key =
     (case find (\<lambda>row. primary_key row = Some key) tbl of
        Some row \<Rightarrow> row
      | None \<Rightarrow> JNull)"

text \<open>\<^verbatim>\<open>term.default(d)\<close>: \<open>d\<close> when the term raises a non-existence error or returns \<open>null\<close>.\<close>

fun reql_default :: "json reql \<Rightarrow> json \<Rightarrow> json reql" where
  "reql_default (Inl ReqlNonExistenceError) d = Inr d"
| "reql_default (Inl e) d = Inl e"
| "reql_default (Inr JNull) d = Inr d"
| "reql_default (Inr v) d = Inr v"

text \<open>
  \<^verbatim>\<open>stream.filter(predicate)\<close>: keeps a row when the predicate returns neither \<open>false\<close> nor
  \<open>null\<close>; a row on which the predicate raises a non-existence error is skipped (the
  \<^verbatim>\<open>default=False\<close> of \<^verbatim>\<open>filter\<close>).
\<close>

definition truthy :: "json \<Rightarrow> bool" where
  "truthy v = (v \<noteq> JBool False \<and> v \<noteq> JNull)"

fun reql_filter :: "(json \<Rightarrow> json reql) \<Rightarrow> json list \<Rightarrow> json list reql" where
  "reql_filter p [] = Inr []"
| "reql_filter p (x # xs) =
     (case p x of
        Inl ReqlNonExistenceError \<Rightarrow> reql_filter p xs
      | Inl e \<Rightarrow> Inl e
      | Inr v \<Rightarrow>
          reql_bind (reql_filter p xs) (\<lambda>ys. Inr (if truthy v then x # ys else ys)))"

text \<open>
  \<^verbatim>\<open>stream.eq_join(key, table)\<close>: each row of the stream is paired with the rows of the
  table whose primary key is the row's key; a row whose key does not exist or is
  \<open>null\<close>, or that matches no row of the table, gives nothing.
\<close>

definition join_row :: "json \<Rightarrow> json \<Rightarrow> json" where
  "join_row l r = JObj [(''left'', l), (''right'', r)]"

definition get_all :: "json list \<Rightarrow> json \<Rightarrow> json list" where
  "get_all tbl key = filter (\<lambda>row. primary_key row = Some key) tbl"

fun reql_eq_join :: "(json \<Rightarrow> json reql) \<Rightarrow> json list \<Rightarrow> json list \<Rightarrow> json list reql" where
  "reql_eq_join key tbl [] = Inr []"
| "reql_eq_join key tbl (x # xs) =
     (case key x of
        Inl ReqlNonExistenceError \<Rightarrow> reql_eq_join key tbl xs
      | Inl e \<Rightarrow> Inl e
      | Inr k \<Rightarrow>
          reql_bind (reql_eq_join key tbl xs)
            (\<lambda>ys. Inr ((if k = JNull then [] else map (join_row x) (get_all tbl k)) @ ys)))"

text \<open>Python's \<^verbatim>\<open>row[k]\<close> on a dictionary returned by the driver.\<close>

fun getitem :: "json \<Rightarrow> string \<Rightarrow> json reql" where
  "getitem (JObj fs) k = (case map_of fs k of Some v \<Rightarrow> Inr v | None \<Rightarrow> Inl KeyError)"
| "getitem v k = Inl KeyError"

section \<open>The database and the queries\<close>

text \<open>What \<^verbatim>\<open>conn\<close> gives access to: the four system tables the joins read.\<close>

record conn =
  stats :: "json list"
  server_config :: "json list"
  table_config :: "json list"
  table_status :: "json list"

subsection \<open>\<^verbatim>\<open>query_servers_with_stats\<close>\<close>

definition is_server_stats_row :: "json \<Rightarrow> json reql" where
  "is_server_stats_row row =
     reql_bind (bracket row ''id'') (\<lambda>i.
     reql_bind (reql_nth i 0) (\<lambda>t. Inr (reql_eq t (JStr ''server''))))"

definition server_id :: "json \<Rightarrow> json reql" where
  "server_id row = reql_bind (bracket row ''id'') (\<lambda>i. reql_nth i 1)"

definition query_servers_with_stats :: "conn \<Rightarrow> (json \<times> json) list reql" where
  "query_servers_with_stats c =
     reql_bind (reql_filter is_server_stats_row (stats c)) (\<lambda>filtered.
     reql_bind (reql_eq_join server_id (server_config c) filtered) (\<lambda>rows.
     reql_map (\<lambda>row.
       reql_bind (getitem row ''left'') (\<lambda>server_stats.
       reql_bind (getitem row ''right'') (\<lambda>server.
       Inr (server, server_stats)))) rows))"

subsection \<open>\<^verbatim>\<open>query_tables_with_stats\<close>\<close>

definition is_table_stats_row :: "json \<Rightarrow> json reql" where
  "is_table_stats_row row =
     reql_bind (bracket row ''id'') (\<lambda>i.
     reql_bind (reql_nth i 0) (\<lambda>t. Inr (reql_eq t (JStr ''table''))))"

definition table_id :: "json \<Rightarrow> json reql" where
  "table_id row = reql_bind (bracket row ''id'') (\<lambda>i. reql_nth i 1)"

definition query_tables_with_stats :: "conn \<Rightarrow> (json \<times> json) list reql" where
  "query_tables_with_stats c =
     reql_bind (reql_filter is_table_stats_row (stats c)) (\<lambda>filtered.
     reql_bind (reql_eq_join table_id (table_config c) filtered) (\<lambda>rows.
     reql_map (\<lambda>row.
       reql_bind (getitem row ''left'') (\<lambda>table_stats.
       reql_bind (getitem row ''right'') (\<lambda>table.
       Inr (table, table_stats)))) rows))"

subsection \<open>\<^verbatim>\<open>query_replicas_with_stats\<close>\<close>

text \<open>
  The query is a chain of terms over the stream of \<^verbatim>\<open>table_status\<close> rows, written here as
  one definition per group of terms. A term of the chain is applied to every row of the
  stream before the next term is; the result of the query is the list of all its rows, or
  the error of the first term that raises. (The cursor of the driver is lazy: the Python
  generator raises that error when it reaches the batch in question.) The first part of the
  chain flattens each row into one row per shard and replica.
\<close>

definition flatten_shards :: "json \<Rightarrow> json list reql" where
  "flatten_shards row =
     reql_bind (bracket row ''shards'') (\<lambda>shards.
     reql_bind (as_seq shards) (\<lambda>ss.
     reql_map (\<lambda>shard.
       reql_bind (reql_pluck [FieldSel ''replicas''] shard) (\<lambda>p. reql_merge row p)) ss))"

definition flatten_replicas_of :: "json \<Rightarrow> json list reql" where
  "flatten_replicas_of row =
     reql_bind (bracket row ''replicas'') (\<lambda>replicas.
     reql_bind (as_seq replicas) (\<lambda>rs.
     reql_map (\<lambda>replica.
       reql_bind (reql_pluck [FieldSel ''server'', FieldSel ''state''] replica) (\<lambda>p.
       reql_merge row (JObj [(''replica'', p)]))) rs))"

definition flatten_table_status :: "json list \<Rightarrow> json list reql" where
  "flatten_table_status ts =
     reql_bind (reql_map (reql_pluck [FieldSel ''id'', NestedSel ''shards'' [''replicas'']]) ts) (\<lambda>s1.
     reql_bind (reql_map (\<lambda>row.
         reql_bind (bracket row ''id'') (\<lambda>i. reql_merge row (JObj [(''table'', i)]))) s1) (\<lambda>s2.
     reql_bind (reql_map (reql_without ''id'') s2) (\<lambda>s3.
     reql_bind (reql_concat_map flatten_shards s3) (\<lambda>s4.
     reql_bind (reql_map (reql_without ''shards'') s4) (\<lambda>s5.
     reql_bind (reql_concat_map flatten_replicas_of s5) (\<lambda>s6.
     reql_map (reql_without ''replicas'') s6))))))"

text \<open>The second part resolves the table, the server and the statistics of each replica.\<close>

definition merge_table :: "conn \<Rightarrow> json \<Rightarrow> json reql" where
  "merge_table c row =
     reql_bind (bracket row ''table'') (\<lambda>t.
     reql_bind (reql_pluck [FieldSel ''id'', FieldSel ''db'', FieldSel ''name''] (reql_get (table_config c) t)) (\<lambda>p.
     reql_merge row (JObj [(''table'', p)])))"

definition merge_server :: "conn \<Rightarrow> json \<Rightarrow> json reql" where
  "merge_server c row =
     reql_bind
       (reql_default
          (reql_bind (bracket row ''replica'') (\<lambda>replica.
           reql_bind (bracket replica ''server'') (\<lambda>s.
           Inr (reql_get (server_config c) s))))
          (JObj [(''id'', JNull)])) (\<lambda>found.
     reql_bind (reql_pluck [FieldSel ''id'', FieldSel ''name'', FieldSel ''tags''] found) (\<lambda>p.
     reql_merge row (JObj [(''server'', p)])))"

definition merge_stats :: "conn \<Rightarrow> json \<Rightarrow> json reql" where
  "merge_stats c row =
     reql_bind
       (reql_default
          (reql_bind (bracket row ''table'') (\<lambda>t.
           reql_bind (bracket t ''id'') (\<lambda>tid.
           reql_bind (bracket row ''server'') (\<lambda>s.
           reql_bind (bracket s ''id'') (\<lambda>sid.
           Inr (reql_get (stats c) (JArr [JStr ''table_server'', tid, sid])))))))
          (JObj [])) (\<lambda>found.
     reql_bind (reql_pluck [FieldSel ''query_engine'', FieldSel ''storage_engine''] found) (\<lambda>p.
     reql_merge row (JObj [(''stats'', p)])))"

definition enrich :: "conn \<Rightarrow> json list \<Rightarrow> json list reql" where
  "enrich c flat =
     reql_bind (reql_map (merge_table c) flat) (\<lambda>s1.
     reql_bind (reql_map (merge_server c) s1) (\<lambda>s2.
     reql_map (merge_stats c) s2))"

definition replica_tuple :: "json \<Rightarrow> (json \<times> json \<times> json \<times> json) reql" where
  "replica_tuple row =
     reql_bind (getitem row ''table'') (\<lambda>table.
     reql_bind (getitem row ''server'') (\<lambda>server.
     reql_bind (getitem row ''replica'') (\<lambda>replica.
     reql_bind (getitem row ''stats'') (\<lambda>replica_stats.
     Inr (table, server, replica, replica_stats)))))"

definition query_replicas_with_stats :: "conn \<Rightarrow> (json \<times> json \<times> json \<times> json) list reql" where
  "query_replicas_with_stats c =
     reql_bind (flatten_table_status (table_status c)) (\<lambda>flat.
     reql_bind (enrich c flat) (\<lambda>rows.
     reql_map replica_tuple rows))"

section \<open>The shape of the system tables\<close>

text \<open>
  A \<^verbatim>\<open>table_status\<close> row is an object with a UUID \<^verbatim>\<open>id\<close> and a field \<^verbatim>\<open>shards\<close>: an array
  of objects, each with a field \<^verbatim>\<open>replicas\<close>: an array of objects. These functions read the
  nesting directly, for the statements about what the flattening part produces.
\<close>

fun is_obj :: "json \<Rightarrow> bool" where
  "is_obj (JObj fs) = True"
| "is_obj v = False"

definition shards_of :: "json \<Rightarrow> json list" where
  "shards_of t = (case bracket t ''shards'' of Inr (JArr ss) \<Rightarrow> ss | _ \<Rightarrow> [])"

definition replicas_of :: "json \<Rightarrow> json list" where
  "replicas_of s = (case bracket s ''replicas'' of Inr (JArr rs) \<Rightarrow> rs | _ \<Rightarrow> [])"

definition table_id_of :: "json \<Rightarrow> json" where
  "table_id_of t = (case primary_key t of Some i \<Rightarrow> i | None \<Rightarrow> JNull)"

definition wf_shard :: "json \<Rightarrow> bool" where
  "wf_shard s =
     (case s of
        JObj fs \<Rightarrow>
          (case map_of fs ''replicas'' of Some (JArr rs) \<Rightarrow> list_all is_obj rs | _ \<Rightarrow> False)
      | _ \<Rightarrow> False)"

definition wf_table_status_row :: "json \<Rightarrow> bool" where
  "wf_table_status_row t =
     (case t of
        JObj fs \<Rightarrow>
          (case map_of fs ''id'' of
             Some (JStr u) \<Rightarrow>
               (case map_of fs ''shards'' of
                  Some (JArr ss) \<Rightarrow> list_all wf_shard ss
                | _ \<Rightarrow> False)
           | _ \<Rightarrow> False)
      | _ \<Rightarrow> False)"

text \<open>
  The flat record of a replica \<open>r\<close> of the table with id \<open>tid\<close>: the table id under
  \<^verbatim>\<open>table\<close>, and the replica restricted to \<^verbatim>\<open>server\<close> and \<^verbatim>\<open>state\<close> under \<^verbatim>\<open>replica\<close>.
\<close>

definition prune_replica :: "json \<Rightarrow> json" where
  "prune_replica r =
     (case r of
        JObj fs \<Rightarrow> JObj (pluck_obj [FieldSel ''server'', FieldSel ''state''] fs)
      | _ \<Rightarrow> JNull)"

definition flat_record :: "json \<Rightarrow> json \<Rightarrow> json" where
  "flat_record tid r = JObj [(''table'', tid), (''replica'', prune_replica r)]"

definition flat_records_of :: "json \<Rightarrow> json list" where
  "flat_records_of t =
     map (flat_record (table_id_of t)) (concat (map replicas_of (shards_of t)))"

section \<open>What the enrichment resolves\<close>

text \<open>
  The values that the second part of the query attaches to a flat record, written as
  functions of the tables: the table's \<^verbatim>\<open>{id, db, name}\<close>, the server's
  \<^verbatim>\<open>{id, name, tags}\<close> or \<^verbatim>\<open>{id: null}\<close>, and the replica's statistics or \<^verbatim>\<open>{}\<close>. The lemmas
  below show that the terms of the query compute them.
\<close>

fun is_str :: "json \<Rightarrow> bool" where
  "is_str (JStr s) = True"
| "is_str v = False"

definition wf_stats_row :: "json \<Rightarrow> bool" where
  "wf_stats_row st = (case primary_key st of Some (JArr ks) \<Rightarrow> list_all is_str ks | _ \<Rightarrow> False)"

fun fields_of :: "json \<Rightarrow> string set" where
  "fields_of (JObj fs) = fst ` set fs"
| "fields_of v = {}"

definition field :: "json \<Rightarrow> string \<Rightarrow> json" where
  "field v k = (case bracket v k of Inr x \<Rightarrow> x | Inl e \<Rightarrow> JNull)"

definition server_info :: "conn \<Rightarrow> json \<Rightarrow> json" where
  "server_info c replica =
     (case bracket replica ''server'' of
        Inr sid \<Rightarrow>
          (case reql_get (server_config c) sid of
             JObj sf \<Rightarrow> JObj (pluck_obj [FieldSel ''id'', FieldSel ''name'', FieldSel ''tags''] sf)
           | _ \<Rightarrow> JObj [(''id'', JNull)])
      | Inl e \<Rightarrow> JObj [(''id'', JNull)])"

definition stats_info :: "conn \<Rightarrow> json \<Rightarrow> json \<Rightarrow> json" where
  "stats_info c t s =
     (case bracket t ''id'' of
        Inr tid \<Rightarrow>
          (case bracket s ''id'' of
             Inr sid \<Rightarrow>
               (case reql_get (stats c) (JArr [JStr ''table_server'', tid, sid]) of
                  JObj stf \<Rightarrow>
                    JObj (pluck_obj [FieldSel ''query_engine'', FieldSel ''storage_engine''] stf)
                | _ \<Rightarrow> JObj [])
           | Inl e \<Rightarrow> JObj [])
      | Inl e \<Rightarrow> JObj [])"

definition table_info :: "conn \<Rightarrow> json \<Rightarrow> json" where
  "table_info c tid =
     (case reql_get (table_config c) tid of
        JObj cf \<Rightarrow> JObj (pluck_obj [FieldSel ''id'', FieldSel ''db'', FieldSel ''name''] cf)
      | _ \<Rightarrow> JNull)"

definition replica_tuple_of :: "conn \<Rightarrow> json \<Rightarrow> json \<times> json \<times> json \<times> json" where
  "replica_tuple_of c rec =
     (let t = table_info c (field rec ''table'');
          r = field rec ''replica'';
          s = server_info c r
      in (t, s, r, stats_info c t s))"

definition enrich_row :: "conn \<Rightarrow> json \<Rightarrow> json reql" where
  "enrich_row c row =
     reql_bind (merge_table c row) (\<lambda>r1. reql_bind (merge_server c r1) (merge_stats c))"

section \<open>The identifiers of the statistics\<close>

text \<open>
  The \<^verbatim>\<open>id\<close> of a row of \<^verbatim>\<open>stats\<close> is an array. These functions read its first element (the
  kind of the row) and its second (the key the join uses), and give the rows of a
  configuration table that \<^verbatim>\<open>eq_join\<close> pairs a row of \<^verbatim>\<open>stats\<close> with.
\<close>

definition stats_tag :: "json \<Rightarrow> json option" where
  "stats_tag row = (case primary_key row of Some (JArr (t # ks)) \<Rightarrow> Some t | _ \<Rightarrow> None)"

definition stats_key :: "json \<Rightarrow> json option" where
  "stats_key row = (case primary_key row of Some (JArr (t # k # ks)) \<Rightarrow> Some k | _ \<Rightarrow> None)"

definition array_keyed :: "json \<Rightarrow> bool" where
  "array_keyed row = (case primary_key row of Some (JArr ks) \<Rightarrow> True | _ \<Rightarrow> False)"

definition joined_with :: "json list \<Rightarrow> json \<Rightarrow> json list" where
  "joined_with cfgs st =
     (case stats_key st of
        Some k \<Rightarrow> if k = JNull then [] else get_all cfgs k
      | None \<Rightarrow> [])"

section \<open>A cluster to evaluate the queries on\<close>

text \<open>
  Tables \<open>T1\<close> to \<open>T4\<close> and the server \<open>A\<close>. \<open>T1\<close> has one shard with a replica on \<open>A\<close>
  and one on \<open>B\<close>; \<open>B\<close> is disconnected and has no row in \<^verbatim>\<open>server_config\<close>, while the
  statistics still hold a row for its replica. \<open>T2\<close> has no shard, \<open>T3\<close> has a shard without
  replicas, and \<open>T4\<close> has a replica on \<open>A\<close> for which there are no statistics yet.
\<close>

definition scenario :: conn where
  "scenario = \<lparr>
     stats =
       [JObj [(''id'', JArr [JStr ''cluster'']),
              (''query_engine'', JObj [(''queries_per_sec'', JNum 3)])],
        JObj [(''id'', JArr [JStr ''server'', JStr ''A'']), (''server'', JStr ''a''),
              (''query_engine'', JObj [(''queries_per_sec'', JNum 3)])],
        JObj [(''id'', JArr [JStr ''server'', JStr ''B'']), (''server'', JStr ''b''),
              (''query_engine'', JObj [(''queries_per_sec'', JNum 0)])],
        JObj [(''id'', JArr [JStr ''table'', JStr ''T1'']), (''table'', JStr ''t1''),
              (''query_engine'', JObj [(''read_docs_per_sec'', JNum 5)])],
        JObj [(''id'', JArr [JStr ''table_server'', JStr ''T1'', JStr ''A'']),
              (''table'', JStr ''t1''), (''server'', JStr ''a''),
              (''query_engine'', JObj [(''read_docs_per_sec'', JNum 5)]),
              (''storage_engine'', JObj [(''disk'', JNum 7)])],
        JObj [(''id'', JArr [JStr ''table_server'', JStr ''T1'', JStr ''B'']),
              (''table'', JStr ''t1''), (''server'', JStr ''b''),
              (''query_engine'', JObj [(''read_docs_per_sec'', JNum 0)])]],
     server_config =
       [JObj [(''id'', JStr ''A''), (''name'', JStr ''a''), (''tags'', JArr [JStr ''default'']),
              (''cache_size_mb'', JStr ''auto'')]],
     table_config =
       [JObj [(''id'', JStr ''T1''), (''db'', JStr ''d''), (''name'', JStr ''t1''),
              (''write_acks'', JStr ''majority'')],
        JObj [(''id'', JStr ''T2''), (''db'', JStr ''d''), (''name'', JStr ''t2'')],
        JObj [(''id'', JStr ''T3''), (''db'', JStr ''d''), (''name'', JStr ''t3'')],
        JObj [(''id'', JStr ''T4''), (''db'', JStr ''d''), (''name'', JStr ''t4'')]],
     table_status =
       [JObj [(''id'', JStr ''T1''), (''db'', JStr ''d''), (''name'', JStr ''t1''),
              (''shards'', JArr [JObj [(''primary_replicas'', JArr [JStr ''A'']),
                 (''replicas'',
                    JArr [JObj [(''server'', JStr ''A''), (''state'', JStr ''ready'')],
                          JObj [(''server'', JStr ''B''), (''state'', JStr ''disconnected'')]])]])],
        JObj [(''id'', JStr ''T2''), (''db'', JStr ''d''), (''name'', JStr ''t2''),
              (''shards'', JArr [])],
        JObj [(''id'', JStr ''T3''), (''db'', JStr ''d''), (''name'', JStr ''t3''),
              (''shards'', JArr [JObj [(''primary_replicas'', JArr []), (''replicas'', JArr [])]])],
        JObj [(''id'', JStr ''T4''), (''db'', JStr ''d''), (''name'', JStr ''t4''),
              (''shards'', JArr [JObj [(''primary_replicas'', JArr [JStr ''A'']),
                 (''replicas'',
                    JArr [JObj [(''server'', JStr ''A''), (''state'', JStr ''ready''),
                                (''extra'', JNum 1)]])]])]]
   \<rparr>"

text \<open>
  The same cluster after \<^verbatim>\<open>table_config\<close> has lost all of its rows, and after it has lost
  all but the row of \<open>T1\<close>: a table can be dropped between the read of \<^verbatim>\<open>table_status\<close>
  and the lookup in \<^verbatim>\<open>table_config\<close>.
\<close>

definition scenario_dropped :: conn where
  "scenario_dropped = scenario\<lparr>table_config := []\<rparr>"


text \<open>What the replica query returns on the cluster above.\<close>

definition scenario_replicas :: "(json \<times> json \<times> json \<times> json) list" where
  "scenario_replicas =
     [(JObj [(''id'', JStr ''T1''), (''db'', JStr ''d''), (''name'', JStr ''t1'')],
       JObj [(''id'', JStr ''A''), (''name'', JStr ''a''), (''tags'', JArr [JStr ''default''])],
       JObj [(''server'', JStr ''A''), (''state'', JStr ''ready'')],
       JObj [(''query_engine'', JObj [(''read_docs_per_sec'', JNum 5)]),
             (''storage_engine'', JObj [(''disk'', JNum 7)])]),
      (JObj [(''id'', JStr ''T1''), (''db'', JStr ''d''), (''name'', JStr ''t1'')],
       JObj [(''id'', JNull)],
       JObj [(''server'', JStr ''B''), (''state'', JStr ''disconnected'')],
       JObj []),
      (JObj [(''id'', JStr ''T4''), (''db'', JStr ''d''), (''name'', JStr ''t4'')],
       JObj [(''id'', JStr ''A''), (''name'', JStr ''a''), (''tags'', JArr [JStr ''default''])],
       JObj [(''server'', JStr ''A''), (''state'', JStr ''ready'')],
       JObj [])]"

text \<open>The cluster with a single row of statistics, whose identifier has three elements.\<close>

definition scenario_odd :: conn where
  "scenario_odd = scenario\<lparr>stats :=
     [JObj [(''id'', JArr [JStr ''server'', JStr ''A'', JStr ''x'']),
            (''query_engine'', JObj [(''queries_per_sec'', JNum 9)])]]\<rparr>"



section \<open>Streams and errors\<close>

lemma reql_bind_Inr [simp]: "reql_bind (Inr v) f = f v"
  by (simp add: reql_bind_def)

lemma reql_bind_Inl [simp]: "reql_bind (Inl e) f = Inl e"
  by (simp add: reql_bind_def)

lemma reql_map_Inr:
  "(\<And>x. x \<in> set xs \<Longrightarrow> f x = Inr (g x)) \<Longrightarrow> reql_map f xs = Inr (map g xs)"
  by (induction xs) simp_all

lemma reql_map_map:
  "(\<And>x. x \<in> set xs \<Longrightarrow> f (h x) = Inr (g x)) \<Longrightarrow>
   reql_map f (map h xs) = Inr (map g xs)"
  by (induction xs) simp_all

lemma reql_map_append:
  "reql_map f xs = Inr as \<Longrightarrow> reql_map f ys = Inr bs \<Longrightarrow>
   reql_map f (xs @ ys) = Inr (as @ bs)"
  by (induction xs arbitrary: as) (auto simp: reql_bind_def split: sum.splits)

lemma reql_map_concat:
  "(\<And>x. x \<in> set xs \<Longrightarrow> reql_map f (H x) = Inr (G x)) \<Longrightarrow>
   reql_map f (concat (map H xs)) = Inr (concat (map G xs))"
  by (induction xs) (simp_all add: reql_map_append)

lemma reql_concat_map_map:
  "(\<And>x. x \<in> set xs \<Longrightarrow> f (h x) = Inr (G x)) \<Longrightarrow>
   reql_concat_map f (map h xs) = Inr (concat (map G xs))"
  by (simp add: reql_concat_map_def reql_map_map)

lemma reql_concat_map_concat:
  "(\<And>x. x \<in> set xs \<Longrightarrow> reql_map f (H x) = Inr (G x)) \<Longrightarrow>
   reql_concat_map f (concat (map H xs)) = Inr (concat (concat (map G xs)))"
  by (simp add: reql_concat_map_def reql_map_concat)

section \<open>Flattening the topology\<close>

lemma concat_concat_map: "concat (concat (map G xs)) = concat (map (\<lambda>x. concat (G x)) xs)"
  by (induction xs) simp_all

lemma wf_shardE:
  assumes "wf_shard s"
  obtains fs rs where "s = JObj fs" "map_of fs ''replicas'' = Some (JArr rs)" "list_all is_obj rs"
  using assms unfolding wf_shard_def by (auto split: json.splits option.splits)

lemma wf_table_status_rowE:
  assumes "wf_table_status_row t"
  obtains fs u ss where "t = JObj fs" "map_of fs ''id'' = Some (JStr u)"
    "map_of fs ''shards'' = Some (JArr ss)" "list_all wf_shard ss"
  using assms unfolding wf_table_status_row_def by (auto split: json.splits option.splits)

lemma pluck_nested_elems_wf:
  "list_all wf_shard ss \<Longrightarrow>
   pluck_nested_elems [''replicas''] ss =
     Some (map (\<lambda>s. JObj [(''replicas'', JArr (replicas_of s))]) ss)"
proof (induction ss)
  case Nil
  then show ?case by simp
next
  case (Cons s ss)
  then have "wf_shard s" by simp
  then obtain fs rs where s: "s = JObj fs" "map_of fs ''replicas'' = Some (JArr rs)"
    by (rule wf_shardE)
  then have "pluck_nested_elem [''replicas''] s = Some (JObj [(''replicas'', JArr (replicas_of s))])"
    by (simp add: pluck_fields_def List.map_filter_simps replicas_of_def)
  with Cons show ?case by simp
qed

lemma wf_shards_of: "wf_table_status_row t \<Longrightarrow> list_all wf_shard (shards_of t)"
  by (erule wf_table_status_rowE) (simp add: shards_of_def)

lemma wf_replicas_of: "wf_shard s \<Longrightarrow> list_all is_obj (replicas_of s)"
  by (erule wf_shardE) (simp add: replicas_of_def)

lemma pluck_table_status_row:
  assumes "wf_table_status_row t"
  shows "reql_pluck [FieldSel ''id'', NestedSel ''shards'' [''replicas'']] t =
     Inr (JObj [(''id'', table_id_of t),
       (''shards'', JArr (map (\<lambda>s. JObj [(''replicas'', JArr (replicas_of s))]) (shards_of t)))])"
proof -
  from assms obtain fs u ss where t: "t = JObj fs" "map_of fs ''id'' = Some (JStr u)"
    "map_of fs ''shards'' = Some (JArr ss)" "list_all wf_shard ss"
    by (rule wf_table_status_rowE)
  then show ?thesis
    by (simp add: pluck_obj_def pluck_nested_elems_wf table_id_of_def shards_of_def)
qed

lemma flatten_shards_row:
  "flatten_shards (JObj [(''shards'', JArr (map (\<lambda>s. JObj [(''replicas'', v s)]) ss)), (''table'', i)]) =
     Inr (map (\<lambda>s. JObj [(''shards'', JArr (map (\<lambda>s. JObj [(''replicas'', v s)]) ss)), (''table'', i),
        (''replicas'', v s)]) ss)"
  unfolding flatten_shards_def
  by (simp add: reql_map_map pluck_obj_def)

lemma pluck_replica: "is_obj r \<Longrightarrow>
   reql_pluck [FieldSel ''server'', FieldSel ''state''] r = Inr (prune_replica r)"
  by (cases r) (simp_all add: prune_replica_def)

lemma flatten_replicas_of_row:
  assumes "list_all is_obj rs"
  shows "flatten_replicas_of (JObj [(''table'', i), (''replicas'', JArr rs)]) =
     Inr (map (\<lambda>r. JObj [(''table'', i), (''replicas'', JArr rs), (''replica'', prune_replica r)]) rs)"
  unfolding flatten_replicas_of_def using assms
  by (simp add: reql_map_Inr pluck_replica list_all_iff)

lemma flatten_table_status_wf:
  assumes wf: "list_all wf_table_status_row ts"
  shows "flatten_table_status ts = Inr (concat (map flat_records_of ts))"
proof -
  let ?SH = "\<lambda>t. JArr (map (\<lambda>s. JObj [(''replicas'', JArr (replicas_of s))]) (shards_of t))"
  let ?r1 = "\<lambda>t. JObj [(''id'', table_id_of t), (''shards'', ?SH t)]"
  let ?r2 = "\<lambda>t. JObj [(''id'', table_id_of t), (''shards'', ?SH t), (''table'', table_id_of t)]"
  let ?r3 = "\<lambda>t. JObj [(''shards'', ?SH t), (''table'', table_id_of t)]"
  let ?g4 = "\<lambda>t. map (\<lambda>s. JObj [(''shards'', ?SH t), (''table'', table_id_of t),
                 (''replicas'', JArr (replicas_of s))]) (shards_of t)"
  let ?g5 = "\<lambda>t. map (\<lambda>s. JObj [(''table'', table_id_of t),
                 (''replicas'', JArr (replicas_of s))]) (shards_of t)"
  let ?g6 = "\<lambda>t. map (\<lambda>s. map (\<lambda>r. JObj [(''table'', table_id_of t),
                 (''replicas'', JArr (replicas_of s)), (''replica'', prune_replica r)])
                 (replicas_of s)) (shards_of t)"
  let ?g7 = "\<lambda>t. map (\<lambda>s. map (flat_record (table_id_of t)) (replicas_of s)) (shards_of t)"
  have wf': "\<And>t. t \<in> set ts \<Longrightarrow> wf_table_status_row t"
    using wf by (simp add: list_all_iff)
  have s1: "reql_map (reql_pluck [FieldSel ''id'', NestedSel ''shards'' [''replicas'']]) ts
      = Inr (map ?r1 ts)"
    by (rule reql_map_Inr) (simp add: pluck_table_status_row wf')
  have s2: "reql_map (\<lambda>row. reql_bind (bracket row ''id'')
        (\<lambda>i. reql_merge row (JObj [(''table'', i)]))) (map ?r1 ts) = Inr (map ?r2 ts)"
    by (rule reql_map_map) simp
  have s3: "reql_map (reql_without ''id'') (map ?r2 ts) = Inr (map ?r3 ts)"
    by (rule reql_map_map) simp
  have s4: "reql_concat_map flatten_shards (map ?r3 ts) = Inr (concat (map ?g4 ts))"
    by (rule reql_concat_map_map) (rule flatten_shards_row)
  have s5: "reql_map (reql_without ''shards'') (concat (map ?g4 ts)) = Inr (concat (map ?g5 ts))"
    by (rule reql_map_concat) (simp add: reql_map_map)
  have s6: "reql_concat_map flatten_replicas_of (concat (map ?g5 ts))
      = Inr (concat (concat (map ?g6 ts)))"
  proof (rule reql_concat_map_concat)
    fix t assume "t \<in> set ts"
    then have ws: "list_all wf_shard (shards_of t)" by (simp add: wf' wf_shards_of)
    show "reql_map flatten_replicas_of (?g5 t) = Inr (?g6 t)"
    proof (rule reql_map_map)
      fix s assume "s \<in> set (shards_of t)"
      with ws have "wf_shard s" by (simp add: list_all_iff)
      then have "list_all is_obj (replicas_of s)" by (rule wf_replicas_of)
      then show "flatten_replicas_of (JObj [(''table'', table_id_of t),
          (''replicas'', JArr (replicas_of s))]) =
        Inr (map (\<lambda>r. JObj [(''table'', table_id_of t), (''replicas'', JArr (replicas_of s)),
          (''replica'', prune_replica r)]) (replicas_of s))"
        by (rule flatten_replicas_of_row)
    qed
  qed
  have s7: "reql_map (reql_without ''replicas'') (concat (concat (map ?g6 ts)))
      = Inr (concat (concat (map ?g7 ts)))"
  proof -
    have "reql_map (reql_without ''replicas'') (concat (map (\<lambda>t. concat (?g6 t)) ts))
      = Inr (concat (map (\<lambda>t. concat (?g7 t)) ts))"
      by (intro reql_map_concat reql_map_map) (simp add: flat_record_def)
    then show ?thesis by (simp add: concat_concat_map)
  qed
  have "\<And>t. concat (?g7 t) = flat_records_of t"
    by (simp add: flat_records_of_def map_concat comp_def)
  then have fin: "concat (concat (map ?g7 ts)) = concat (map flat_records_of ts)"
    by (simp add: concat_concat_map)
  show ?thesis
    unfolding flatten_table_status_def by (simp add: s1 s2 s3 s4 s5 s6 s7 fin)
qed

text \<open>
  C4. Flattening is size-preserving. On well-formed \<^verbatim>\<open>table_status\<close> rows the flattening part
  of the query returns, without an error, as many records as there are replicas: the sum
  over the tables of the sum over their shards of the number of replicas of the shard. A
  table without shards and a shard without replicas add nothing to the sum, and every
  record carries an object under \<^verbatim>\<open>replica\<close>, never \<open>null\<close>.
\<close>

theorem flatten_size_preserving:
  assumes "list_all wf_table_status_row ts"
  shows "\<exists>flat. flatten_table_status ts = Inr flat \<and>
     length flat =
       sum_list (map (\<lambda>t. sum_list (map (\<lambda>s. length (replicas_of s)) (shards_of t))) ts) \<and>
     list_all (\<lambda>rec. \<exists>v. bracket rec ''replica'' = Inr v \<and> is_obj v) flat"
proof -
  have len: "length (concat (map flat_records_of ts)) =
      sum_list (map (\<lambda>t. sum_list (map (\<lambda>s. length (replicas_of s)) (shards_of t))) ts)"
    by (simp add: length_concat flat_records_of_def comp_def)
  have obj: "list_all (\<lambda>rec. \<exists>v. bracket rec ''replica'' = Inr v \<and> is_obj v)
      (concat (map flat_records_of ts))"
  proof -
    have "\<And>t r. wf_table_status_row t \<Longrightarrow> r \<in> set (concat (map replicas_of (shards_of t)))
        \<Longrightarrow> is_obj (prune_replica r)"
    proof -
      fix t r assume t: "wf_table_status_row t"
        and "r \<in> set (concat (map replicas_of (shards_of t)))"
      then obtain s where "s \<in> set (shards_of t)" "r \<in> set (replicas_of s)" by auto
      with wf_shards_of[OF t] wf_replicas_of[of s] have "is_obj r" by (simp add: list_all_iff)
      then show "is_obj (prune_replica r)" by (cases r) (simp_all add: prune_replica_def)
    qed
    with assms show ?thesis
      by (auto simp: list_all_iff flat_records_of_def flat_record_def)
  qed
  show ?thesis using flatten_table_status_wf[OF assms] len obj by simp
qed

theorem flatten_size_preserving_witness:
  "list_all wf_table_status_row (table_status scenario) \<and>
   (\<exists>flat. flatten_table_status (table_status scenario) = Inr flat \<and> length flat = 3)"
proof -
  have h: "list_all wf_table_status_row (table_status scenario)"
    by (simp add: scenario_def wf_table_status_row_def wf_shard_def)
  have "sum_list (map (\<lambda>t. sum_list (map (\<lambda>s. length (replicas_of s)) (shards_of t)))
      (table_status scenario)) = 3"
    by (simp add: scenario_def shards_of_def replicas_of_def)
  with flatten_size_preserving[OF h] h show ?thesis by auto
qed

text \<open>
  C8. The table identifier survives both levels of the expansion. On well-formed
  \<^verbatim>\<open>table_status\<close> rows the flattening part returns, table by table and in the order of the
  shards and of their replicas, one record per replica, and the \<^verbatim>\<open>table\<close> field of that
  record is the \<^verbatim>\<open>id\<close> of the row the replica was nested in.
\<close>

theorem flatten_preserves_table_id:
  assumes "list_all wf_table_status_row ts"
  shows "flatten_table_status ts =
     Inr (concat (map (\<lambda>t.
            map (\<lambda>r. JObj [(''table'', table_id_of t), (''replica'', prune_replica r)])
              (concat (map replicas_of (shards_of t)))) ts))"
proof -
  have "flat_records_of =
      (\<lambda>t. map (\<lambda>r. JObj [(''table'', table_id_of t), (''replica'', prune_replica r)])
              (concat (map replicas_of (shards_of t))))"
    by (rule ext) (simp add: flat_records_of_def flat_record_def)
  then show ?thesis using flatten_table_status_wf[OF assms] by simp
qed

theorem flatten_preserves_table_id_witness:
  "list_all wf_table_status_row (table_status scenario) \<and>
   flatten_table_status (table_status scenario) =
     Inr [JObj [(''table'', JStr ''T1''),
                (''replica'', JObj [(''server'', JStr ''A''), (''state'', JStr ''ready'')])],
          JObj [(''table'', JStr ''T1''),
                (''replica'', JObj [(''server'', JStr ''B''), (''state'', JStr ''disconnected'')])],
          JObj [(''table'', JStr ''T4''),
                (''replica'', JObj [(''server'', JStr ''A''), (''state'', JStr ''ready'')])]]"
proof -
  have h: "list_all wf_table_status_row (table_status scenario)"
    by (simp add: scenario_def wf_table_status_row_def wf_shard_def)
  show ?thesis using h flatten_preserves_table_id[OF h]
    by (simp add: scenario_def shards_of_def replicas_of_def table_id_of_def prune_replica_def
        pluck_obj_def)
qed

section \<open>Resolving table, server and statistics\<close>

lemma find_primary_key:
  "find (\<lambda>row. primary_key row = Some k) tbl = None \<longleftrightarrow>
   (\<forall>row\<in>set tbl. primary_key row \<noteq> Some k)"
  by (auto simp: find_None_iff)

lemma reql_get_absent:
  "(\<forall>row\<in>set tbl. primary_key row \<noteq> Some k) \<Longrightarrow> reql_get tbl k = JNull"
  by (simp add: reql_get_def find_primary_key[symmetric])

lemma reql_get_cases:
  obtains (absent) "reql_get tbl k = JNull" "\<forall>row\<in>set tbl. primary_key row \<noteq> Some k"
  | (found) fs where "reql_get tbl k = JObj fs" "JObj fs \<in> set tbl" "map_of fs ''id'' = Some k"
proof (cases "find (\<lambda>row. primary_key row = Some k) tbl")
  case None
  then have "\<forall>row\<in>set tbl. primary_key row \<noteq> Some k" by (simp add: find_primary_key)
  then show ?thesis using absent reql_get_absent by blast
next
  case (Some row)
  then have mem: "row \<in> set tbl" and pk: "primary_key row = Some k"
    by (auto simp: find_Some_iff)
  from pk obtain fs where "row = JObj fs" by (cases row) simp_all
  with mem pk show ?thesis using found Some by (simp add: reql_get_def)
qed

lemma merge_table_found:
  assumes "reql_get (table_config c) (JStr u) = JObj cf"
  shows "merge_table c (JObj [(''table'', JStr u), (''replica'', rv)]) =
     Inr (JObj [(''table'', JObj (pluck_obj [FieldSel ''id'', FieldSel ''db'', FieldSel ''name''] cf)),
                (''replica'', rv)])"
  using assms by (simp add: merge_table_def)

lemma merge_table_absent:
  assumes "\<forall>cfg\<in>set (table_config c). primary_key cfg \<noteq> Some tid"
  shows "merge_table c (JObj [(''table'', tid), (''replica'', rv)]) = Inl ReqlNonExistenceError"
  using assms by (simp add: merge_table_def reql_get_absent)

lemma merge_server_row:
  "merge_server c (JObj [(''table'', tv), (''replica'', JObj rf)]) =
     Inr (JObj [(''table'', tv), (''replica'', JObj rf), (''server'', server_info c (JObj rf))])"
proof (cases "map_of rf ''server''")
  case None
  then show ?thesis by (simp add: merge_server_def server_info_def pluck_obj_def)
next
  case (Some sid)
  show ?thesis
  proof (cases rule: reql_get_cases[of "server_config c" sid])
    case absent
    with Some show ?thesis by (simp add: merge_server_def server_info_def pluck_obj_def)
  next
    case (found fs)
    with Some show ?thesis by (simp add: merge_server_def server_info_def)
  qed
qed

lemma merge_stats_row:
  "merge_stats c (JObj [(''table'', JObj tf), (''replica'', rv), (''server'', JObj sf)]) =
     Inr (JObj [(''table'', JObj tf), (''replica'', rv), (''server'', JObj sf),
                (''stats'', stats_info c (JObj tf) (JObj sf))])"
proof (cases "map_of tf ''id''")
  case None
  then show ?thesis by (simp add: merge_stats_def stats_info_def pluck_obj_def)
next
  case tid: (Some tid)
  show ?thesis
  proof (cases "map_of sf ''id''")
    case None
    with tid show ?thesis by (simp add: merge_stats_def stats_info_def pluck_obj_def)
  next
    case (Some sid)
    show ?thesis
    proof (cases rule: reql_get_cases[of "stats c" "JArr [JStr ''table_server'', tid, sid]"])
      case absent
      with tid Some show ?thesis by (simp add: merge_stats_def stats_info_def pluck_obj_def)
    next
      case (found fs)
      with tid Some show ?thesis by (simp add: merge_stats_def stats_info_def)
    qed
  qed
qed


lemma reql_map_fuse:
  "reql_map (\<lambda>x. reql_bind (f x) g) xs = Inr zs \<Longrightarrow>
   reql_bind (reql_map f xs) (reql_map g) = Inr zs"
proof (induction xs arbitrary: zs)
  case Nil
  then show ?case by simp
next
  case (Cons x xs)
  from Cons.prems obtain y z zs' where y: "f x = Inr y" "g y = Inr z"
    and r: "reql_map (\<lambda>x. reql_bind (f x) g) xs = Inr zs'" and zs: "zs = z # zs'"
    by (auto simp: reql_bind_def split: sum.splits)
  from Cons.IH[OF r] obtain ys where ys: "reql_map f xs = Inr ys" "reql_map g ys = Inr zs'"
    by (auto simp: reql_bind_def split: sum.splits)
  with y zs show ?case by simp
qed

lemma enrich_fuse:
  assumes "reql_map (enrich_row c) flat = Inr rows"
  shows "enrich c flat = Inr rows"
proof -
  have "reql_bind (reql_map (merge_table c) flat)
      (reql_map (\<lambda>r1. reql_bind (merge_server c r1) (merge_stats c))) = Inr rows"
    using assms unfolding enrich_row_def by (rule reql_map_fuse)
  then obtain s1 where s1: "reql_map (merge_table c) flat = Inr s1"
    and "reql_map (\<lambda>r1. reql_bind (merge_server c r1) (merge_stats c)) s1 = Inr rows"
    by (auto simp: reql_bind_def split: sum.splits)
  then have "reql_bind (reql_map (merge_server c) s1) (reql_map (merge_stats c)) = Inr rows"
    by (simp add: reql_map_fuse)
  with s1 show ?thesis by (simp add: enrich_def)
qed

lemma server_info_obj: "\<exists>sf. server_info c r = JObj sf"
  by (auto simp: server_info_def split: sum.splits json.splits)

lemma enrich_row_found:
  assumes "reql_get (table_config c) (JStr u) = JObj cf"
  shows "reql_bind (enrich_row c (JObj [(''table'', JStr u), (''replica'', JObj rf)])) replica_tuple
     = Inr (replica_tuple_of c (JObj [(''table'', JStr u), (''replica'', JObj rf)]))"
proof -
  obtain sf where sf: "server_info c (JObj rf) = JObj sf" using server_info_obj by blast
  show ?thesis using assms
    by (simp add: enrich_row_def merge_table_found merge_server_row sf merge_stats_row
        replica_tuple_def replica_tuple_of_def field_def table_info_def Let_def)
qed

lemma reql_map_Inl:
  assumes "\<And>x. x \<in> set xs \<Longrightarrow> f x = Inl e \<or> (\<exists>y. f x = Inr y)"
    and "\<exists>x\<in>set xs. f x = Inl e"
  shows "reql_map f xs = Inl e"
  using assms
proof (induction xs)
  case Nil
  then show ?case by simp
next
  case (Cons x xs)
  show ?case
  proof (cases "f x")
    case (Inl e')
    with Cons.prems(1)[of x] show ?thesis by simp
  next
    case (Inr y)
    with Cons.prems(2) have "\<exists>x\<in>set xs. f x = Inl e" by auto
    with Cons.IH Cons.prems(1) have "reql_map f xs = Inl e" by simp
    with Inr show ?thesis by simp
  qed
qed

lemma fields_pluck_replica:
  "fst ` set (pluck_obj [FieldSel ''server'', FieldSel ''state''] fs) \<subseteq> {''server'', ''state''}"
  by (auto simp: pluck_obj_def split: option.splits)

lemma prune_replica_obj:
  assumes "is_obj r"
  obtains rf where "prune_replica r = JObj rf" "fst ` set rf \<subseteq> {''server'', ''state''}"
proof -
  from assms obtain fs where "r = JObj fs" by (cases r) simp_all
  then have "prune_replica r = JObj (pluck_obj [FieldSel ''server'', FieldSel ''state''] fs)"
    by (simp add: prune_replica_def)
  then show ?thesis using that fields_pluck_replica by blast
qed

lemma flat_recordE:
  assumes "wf_table_status_row t" and "rec \<in> set (flat_records_of t)"
  obtains u rf where "rec = JObj [(''table'', JStr u), (''replica'', JObj rf)]"
    "table_id_of t = JStr u" "fst ` set rf \<subseteq> {''server'', ''state''}"
proof -
  from assms(2) obtain s r where s: "s \<in> set (shards_of t)" and r: "r \<in> set (replicas_of s)"
    and rec: "rec = flat_record (table_id_of t) r"
    by (auto simp: flat_records_of_def)
  from wf_shards_of[OF assms(1)] s have "wf_shard s" by (simp add: list_all_iff)
  from wf_replicas_of[OF this] r have "is_obj r" by (simp add: list_all_iff)
  then obtain rf where rf: "prune_replica r = JObj rf" "fst ` set rf \<subseteq> {''server'', ''state''}"
    by (rule prune_replica_obj)
  from assms(1) obtain u where "table_id_of t = JStr u"
    by (rule wf_table_status_rowE) (simp add: table_id_of_def)
  with rec rf that show ?thesis by (simp add: flat_record_def)
qed

lemma reql_get_present:
  assumes "\<exists>cfg\<in>set tbl. primary_key cfg = Some k"
  shows "\<exists>cf. reql_get tbl k = JObj cf \<and> map_of cf ''id'' = Some k"
  using assms by (cases rule: reql_get_cases[of tbl k]) auto

lemma query_replicas_resolved:
  assumes wf: "list_all wf_table_status_row (table_status c)"
    and res: "\<forall>t\<in>set (table_status c). flat_records_of t \<noteq> [] \<longrightarrow>
        (\<exists>cfg\<in>set (table_config c). primary_key cfg = Some (table_id_of t))"
  shows "query_replicas_with_stats c =
     Inr (map (replica_tuple_of c) (concat (map flat_records_of (table_status c))))"
proof -
  let ?flat = "concat (map flat_records_of (table_status c))"
  have "reql_map (\<lambda>rec. reql_bind (enrich_row c rec) replica_tuple) ?flat
      = Inr (map (replica_tuple_of c) ?flat)"
  proof (rule reql_map_Inr)
    fix rec assume "rec \<in> set ?flat"
    then obtain t where t: "t \<in> set (table_status c)" and rec: "rec \<in> set (flat_records_of t)"
      by auto
    from wf t have "wf_table_status_row t" by (simp add: list_all_iff)
    from this rec obtain u rf where shape: "rec = JObj [(''table'', JStr u), (''replica'', JObj rf)]"
      and u: "table_id_of t = JStr u"
      by (rule flat_recordE)
    from rec have "flat_records_of t \<noteq> []" by auto
    with res t have "\<exists>cfg\<in>set (table_config c). primary_key cfg = Some (table_id_of t)"
      by blast
    then have "\<exists>cfg\<in>set (table_config c). primary_key cfg = Some (JStr u)"
      by (simp only: u)
    then obtain cf where "reql_get (table_config c) (JStr u) = JObj cf"
      using reql_get_present by blast
    then show "reql_bind (enrich_row c rec) replica_tuple = Inr (replica_tuple_of c rec)"
      unfolding shape by (rule enrich_row_found)
  qed
  then have "reql_bind (reql_map (enrich_row c) ?flat) (reql_map replica_tuple)
      = Inr (map (replica_tuple_of c) ?flat)"
    by (rule reql_map_fuse)
  then obtain rows where rows: "reql_map (enrich_row c) ?flat = Inr rows"
    and out: "reql_map replica_tuple rows = Inr (map (replica_tuple_of c) ?flat)"
    by (auto simp: reql_bind_def split: sum.splits)
  from rows have "enrich c ?flat = Inr rows" by (rule enrich_fuse)
  with out show ?thesis
    by (simp add: query_replicas_with_stats_def flatten_table_status_wf[OF wf])
qed

lemma query_replicas_unresolved:
  assumes wf: "list_all wf_table_status_row (table_status c)"
    and miss: "\<exists>t\<in>set (table_status c). flat_records_of t \<noteq> [] \<and>
        (\<forall>cfg\<in>set (table_config c). primary_key cfg \<noteq> Some (table_id_of t))"
  shows "query_replicas_with_stats c = Inl ReqlNonExistenceError"
proof -
  let ?flat = "concat (map flat_records_of (table_status c))"
  have shape: "\<exists>u rf. rec = JObj [(''table'', JStr u), (''replica'', JObj rf)] \<and> table_id_of t = JStr u"
    if "t \<in> set (table_status c)" "rec \<in> set (flat_records_of t)" for t rec
  proof -
    from wf that(1) have "wf_table_status_row t" by (simp add: list_all_iff)
    from this that(2) show ?thesis by (rule flat_recordE) blast
  qed
  have "reql_map (merge_table c) ?flat = Inl ReqlNonExistenceError"
  proof (rule reql_map_Inl)
    fix rec assume "rec \<in> set ?flat"
    then obtain t where "t \<in> set (table_status c)" "rec \<in> set (flat_records_of t)" by auto
    from shape[OF this] obtain u rf
      where rec: "rec = JObj [(''table'', JStr u), (''replica'', JObj rf)]" by blast
    show "merge_table c rec = Inl ReqlNonExistenceError \<or> (\<exists>y. merge_table c rec = Inr y)"
    proof (cases rule: reql_get_cases[of "table_config c" "JStr u"])
      case absent
      then show ?thesis unfolding rec by (simp add: merge_table_absent)
    next
      case (found fs)
      then show ?thesis unfolding rec by (simp add: merge_table_found)
    qed
  next
    from miss obtain t where t: "t \<in> set (table_status c)"
      and ne: "flat_records_of t \<noteq> []"
      and none: "\<forall>cfg\<in>set (table_config c). primary_key cfg \<noteq> Some (table_id_of t)"
      by blast
    from ne obtain rec where rec: "rec \<in> set (flat_records_of t)"
      by (cases "flat_records_of t") auto
    from shape[OF t rec] obtain u rf
      where r: "rec = JObj [(''table'', JStr u), (''replica'', JObj rf)]" "table_id_of t = JStr u"
      by blast
    with none have "merge_table c rec = Inl ReqlNonExistenceError"
      by (simp add: merge_table_absent)
    moreover from t rec have "rec \<in> set ?flat" by auto
    ultimately show "\<exists>rec\<in>set ?flat. merge_table c rec = Inl ReqlNonExistenceError" by blast
  qed
  then show ?thesis
    by (simp add: query_replicas_with_stats_def flatten_table_status_wf[OF wf] enrich_def)
qed

lemma fields_table_info: "fields_of (table_info c tid) \<subseteq> {''id'', ''db'', ''name''}"
  by (auto simp: table_info_def pluck_obj_def split: json.splits option.splits)

lemma fields_server_info: "fields_of (server_info c r) \<subseteq> {''id'', ''name'', ''tags''}"
  by (auto simp: server_info_def pluck_obj_def split: sum.splits json.splits option.splits)

lemma fields_stats_info: "fields_of (stats_info c t s) \<subseteq> {''query_engine'', ''storage_engine''}"
  by (auto simp: stats_info_def pluck_obj_def split: sum.splits json.splits option.splits)

lemma stats_info_obj: "is_obj (stats_info c t s)"
  by (auto simp: stats_info_def split: sum.splits json.splits)

lemma server_info_absent:
  assumes "map_of rf ''server'' = Some sid"
    and "\<forall>cfg\<in>set (server_config c). primary_key cfg \<noteq> Some sid"
  shows "server_info c (JObj rf) = JObj [(''id'', JNull)]"
  using assms by (simp add: server_info_def reql_get_absent)

section \<open>The scenario, evaluated\<close>

lemma scenario_wf: "list_all wf_table_status_row (table_status scenario)"
  by (simp add: scenario_def wf_table_status_row_def wf_shard_def)

lemma scenario_flat:
  "concat (map flat_records_of (table_status scenario)) =
     [JObj [(''table'', JStr ''T1''),
            (''replica'', JObj [(''server'', JStr ''A''), (''state'', JStr ''ready'')])],
      JObj [(''table'', JStr ''T1''),
            (''replica'', JObj [(''server'', JStr ''B''), (''state'', JStr ''disconnected'')])],
      JObj [(''table'', JStr ''T4''),
            (''replica'', JObj [(''server'', JStr ''A''), (''state'', JStr ''ready'')])]]"
  by (simp add: scenario_def flat_records_of_def flat_record_def shards_of_def replicas_of_def
      table_id_of_def prune_replica_def pluck_obj_def)

lemma scenario_resolved:
  "\<forall>t\<in>set (table_status scenario). flat_records_of t \<noteq> [] \<longrightarrow>
     (\<exists>cfg\<in>set (table_config scenario). primary_key cfg = Some (table_id_of t))"
  by (simp add: scenario_def table_id_of_def)

lemma scenario_dropped_wf: "list_all wf_table_status_row (table_status scenario_dropped)"
  using scenario_wf by (simp add: scenario_dropped_def)

lemma wf_stats_no_null:
  assumes "list_all wf_stats_row sts"
  shows "\<forall>st\<in>set sts. primary_key st \<noteq> Some (JArr [a, b, JNull])"
proof
  fix st assume "st \<in> set sts"
  with assms have "wf_stats_row st" by (simp add: list_all_iff)
  then show "primary_key st \<noteq> Some (JArr [a, b, JNull])"
    by (auto simp: wf_stats_row_def)
qed

section \<open>Totality of the enrichment and the missing table\<close>

text \<open>
  C6, as amended. When every table with a replica has a row in \<^verbatim>\<open>table_config\<close>, the query
  returns without an error exactly one tuple for each flat record, in the order of the
  records: the tuple carries the record's replica, and its table is the one the record is
  anchored to.
\<close>

theorem enrichment_total_when_tables_resolve:
  assumes "list_all wf_table_status_row (table_status c)"
    and "\<forall>t\<in>set (table_status c). flat_records_of t \<noteq> [] \<longrightarrow>
        (\<exists>cfg\<in>set (table_config c). primary_key cfg = Some (table_id_of t))"
  shows "\<exists>flat out. flatten_table_status (table_status c) = Inr flat \<and>
     query_replicas_with_stats c = Inr out \<and>
     list_all2 (\<lambda>rec (t, s, r, st).
        bracket rec ''replica'' = Inr r \<and> bracket t ''id'' = bracket rec ''table'') flat out"
proof -
  let ?flat = "concat (map flat_records_of (table_status c))"
  have "bracket rec ''replica'' = Inr (fst (snd (snd (replica_tuple_of c rec)))) \<and>
      bracket (fst (replica_tuple_of c rec)) ''id'' = bracket rec ''table''"
    if "rec \<in> set ?flat" for rec
  proof -
    from that obtain t where t: "t \<in> set (table_status c)" and rec: "rec \<in> set (flat_records_of t)"
      by auto
    from assms(1) t have "wf_table_status_row t" by (simp add: list_all_iff)
    from this rec obtain u rf where shape: "rec = JObj [(''table'', JStr u), (''replica'', JObj rf)]"
      and u: "table_id_of t = JStr u"
      by (rule flat_recordE)
    from rec have "flat_records_of t \<noteq> []" by auto
    with assms(2) t have "\<exists>cfg\<in>set (table_config c). primary_key cfg = Some (table_id_of t)"
      by blast
    then have "\<exists>cfg\<in>set (table_config c). primary_key cfg = Some (JStr u)"
      by (simp only: u)
    then obtain cf where "reql_get (table_config c) (JStr u) = JObj cf" "map_of cf ''id'' = Some (JStr u)"
      using reql_get_present by blast
    then show ?thesis
      by (simp add: shape replica_tuple_of_def field_def table_info_def Let_def pluck_obj_def)
  qed
  then have "list_all2 (\<lambda>rec (t, s, r, st).
        bracket rec ''replica'' = Inr r \<and> bracket t ''id'' = bracket rec ''table'')
      ?flat (map (replica_tuple_of c) ?flat)"
    by (simp add: list_all2_map2 list_all2_same case_prod_beta)
  then show ?thesis
    using flatten_table_status_wf[OF assms(1)] query_replicas_resolved[OF assms] by simp
qed

theorem enrichment_total_when_tables_resolve_witness:
  "list_all wf_table_status_row (table_status scenario) \<and>
   (\<exists>flat out. flatten_table_status (table_status scenario) = Inr flat \<and>
      query_replicas_with_stats scenario = Inr out \<and> length flat = 3 \<and> length out = 3)"
proof -
  from enrichment_total_when_tables_resolve[OF scenario_wf scenario_resolved]
  obtain flat out where f: "flatten_table_status (table_status scenario) = Inr flat"
    and q: "query_replicas_with_stats scenario = Inr out"
    and l: "list_all2 (\<lambda>rec (t, s, r, st).
        bracket rec ''replica'' = Inr r \<and> bracket t ''id'' = bracket rec ''table'') flat out"
    by blast
  from f have "flat = concat (map flat_records_of (table_status scenario))"
    by (simp add: flatten_table_status_wf[OF scenario_wf])
  then have "length flat = 3"
    by (simp only: scenario_flat) simp
  moreover from l have "length flat = length out" by (rule list_all2_lengthD)
  ultimately show ?thesis using f q scenario_wf by simp
qed

text \<open>
  C6 as stated fails when a table has no row in \<^verbatim>\<open>table_config\<close>: the flattening yields three
  records, and the query yields no tuple for any of them but raises.
\<close>

theorem enrichment_total_counterexample:
  "flatten_table_status (table_status scenario_dropped) =
     Inr [JObj [(''table'', JStr ''T1''),
            (''replica'', JObj [(''server'', JStr ''A''), (''state'', JStr ''ready'')])],
      JObj [(''table'', JStr ''T1''),
            (''replica'', JObj [(''server'', JStr ''B''), (''state'', JStr ''disconnected'')])],
      JObj [(''table'', JStr ''T4''),
            (''replica'', JObj [(''server'', JStr ''A''), (''state'', JStr ''ready'')])]] \<and>
   query_replicas_with_stats scenario_dropped = Inl ReqlNonExistenceError"
proof -
  have "flatten_table_status (table_status scenario_dropped) =
      Inr (concat (map flat_records_of (table_status scenario)))"
    using flatten_table_status_wf[OF scenario_dropped_wf] by (simp add: scenario_dropped_def)
  moreover have "query_replicas_with_stats scenario_dropped = Inl ReqlNonExistenceError"
  proof (rule query_replicas_unresolved[OF scenario_dropped_wf])
    show "\<exists>t\<in>set (table_status scenario_dropped). flat_records_of t \<noteq> [] \<and>
        (\<forall>cfg\<in>set (table_config scenario_dropped). primary_key cfg \<noteq> Some (table_id_of t))"
      by (simp add: scenario_dropped_def scenario_def flat_records_of_def shards_of_def
          replicas_of_def)
  qed
  ultimately show ?thesis by (simp add: scenario_flat)
qed



lemma table_info_found:
  assumes "reql_get (table_config c) tid = JObj cf"
  shows "is_obj (table_info c tid)"
  using assms by (simp add: table_info_def)

lemma scenario_query_replicas: "query_replicas_with_stats scenario = Inr scenario_replicas"
  unfolding query_replicas_resolved[OF scenario_wf scenario_resolved] scenario_flat
  by (simp add: replica_tuple_of_def field_def Let_def table_info_def server_info_def
      stats_info_def reql_get_def scenario_def pluck_obj_def scenario_replicas_def)

section \<open>The fields of the tuples\<close>

text \<open>
  C9, as amended. Every tuple that \<^verbatim>\<open>query_replicas_with_stats\<close> yields carries only the
  needed fields: its table is an object with no field besides \<^verbatim>\<open>id\<close>, \<^verbatim>\<open>db\<close>, \<^verbatim>\<open>name\<close>, its
  server one with no field besides \<^verbatim>\<open>id\<close>, \<^verbatim>\<open>name\<close>, \<^verbatim>\<open>tags\<close>, its replica one with no field
  besides \<^verbatim>\<open>server\<close>, \<^verbatim>\<open>state\<close>, and its statistics one with no field besides
  \<^verbatim>\<open>query_engine\<close>, \<^verbatim>\<open>storage_engine\<close>.
\<close>

theorem replica_tuples_only_needed_fields:
  assumes wf: "list_all wf_table_status_row (table_status c)"
    and out: "query_replicas_with_stats c = Inr out"
    and mem: "(t, s, r, st) \<in> set out"
  shows "is_obj t \<and> fields_of t \<subseteq> {''id'', ''db'', ''name''} \<and>
     is_obj s \<and> fields_of s \<subseteq> {''id'', ''name'', ''tags''} \<and>
     is_obj r \<and> fields_of r \<subseteq> {''server'', ''state''} \<and>
     is_obj st \<and> fields_of st \<subseteq> {''query_engine'', ''storage_engine''}"
proof -
  let ?flat = "concat (map flat_records_of (table_status c))"
  have res: "\<forall>t\<in>set (table_status c). flat_records_of t \<noteq> [] \<longrightarrow>
        (\<exists>cfg\<in>set (table_config c). primary_key cfg = Some (table_id_of t))"
  proof (rule ccontr)
    assume "\<not> ?thesis"
    then have "\<exists>t\<in>set (table_status c). flat_records_of t \<noteq> [] \<and>
        (\<forall>cfg\<in>set (table_config c). primary_key cfg \<noteq> Some (table_id_of t))"
      by blast
    from query_replicas_unresolved[OF wf this] out show False by simp
  qed
  from query_replicas_resolved[OF wf res] out
  have "out = map (replica_tuple_of c) ?flat" by simp
  with mem obtain rec where rec: "rec \<in> set ?flat" and tup: "(t, s, r, st) = replica_tuple_of c rec"
    by auto
  from rec obtain row where row: "row \<in> set (table_status c)" and rec': "rec \<in> set (flat_records_of row)"
    by auto
  from wf row have "wf_table_status_row row" by (simp add: list_all_iff)
  from this rec' obtain u rf where shape: "rec = JObj [(''table'', JStr u), (''replica'', JObj rf)]"
    and u: "table_id_of row = JStr u" and rf: "fst ` set rf \<subseteq> {''server'', ''state''}"
    by (rule flat_recordE)
  from rec' have "flat_records_of row \<noteq> []" by auto
  with res row have "\<exists>cfg\<in>set (table_config c). primary_key cfg = Some (table_id_of row)"
    by blast
  then have "\<exists>cfg\<in>set (table_config c). primary_key cfg = Some (JStr u)"
    by (simp only: u)
  then obtain cf where cf: "reql_get (table_config c) (JStr u) = JObj cf"
    using reql_get_present by blast
  from tup have t: "t = table_info c (JStr u)" and r: "r = JObj rf"
    and s: "s = server_info c (JObj rf)" and st: "st = stats_info c t s"
    by (simp_all add: shape replica_tuple_of_def field_def Let_def)
  have "is_obj t" unfolding t using cf by (rule table_info_found)
  moreover have "fields_of t \<subseteq> {''id'', ''db'', ''name''}" unfolding t by (rule fields_table_info)
  moreover have "is_obj s" unfolding s using server_info_obj[of c "JObj rf"] by auto
  moreover have "fields_of s \<subseteq> {''id'', ''name'', ''tags''}" unfolding s by (rule fields_server_info)
  moreover have "is_obj r" "fields_of r \<subseteq> {''server'', ''state''}" using rf by (simp_all add: r)
  moreover have "is_obj st" unfolding st by (rule stats_info_obj)
  moreover have "fields_of st \<subseteq> {''query_engine'', ''storage_engine''}"
    unfolding st by (rule fields_stats_info)
  ultimately show ?thesis by blast
qed

theorem replica_tuples_only_needed_fields_witness:
  "list_all wf_table_status_row (table_status scenario) \<and>
   query_replicas_with_stats scenario = Inr scenario_replicas \<and>
   scenario_replicas ! 2 =
     (JObj [(''id'', JStr ''T4''), (''db'', JStr ''d''), (''name'', JStr ''t4'')],
      JObj [(''id'', JStr ''A''), (''name'', JStr ''a''), (''tags'', JArr [JStr ''default''])],
      JObj [(''server'', JStr ''A''), (''state'', JStr ''ready'')],
      JObj []) \<and>
   fields_of (JObj [(''id'', JStr ''T4''), (''db'', JStr ''d''), (''name'', JStr ''t4'')])
     \<subseteq> {''id'', ''db'', ''name''} \<and>
   fields_of (JObj [(''id'', JStr ''A''), (''name'', JStr ''a''), (''tags'', JArr [JStr ''default''])])
     \<subseteq> {''id'', ''name'', ''tags''} \<and>
   fields_of (JObj [(''server'', JStr ''A''), (''state'', JStr ''ready'')])
     \<subseteq> {''server'', ''state''} \<and>
   fields_of (JObj []) \<subseteq> {''query_engine'', ''storage_engine''}"
proof -
  have m: "(JObj [(''id'', JStr ''T4''), (''db'', JStr ''d''), (''name'', JStr ''t4'')],
      JObj [(''id'', JStr ''A''), (''name'', JStr ''a''), (''tags'', JArr [JStr ''default''])],
      JObj [(''server'', JStr ''A''), (''state'', JStr ''ready'')],
      JObj []) \<in> set scenario_replicas"
    by (simp add: scenario_replicas_def)
  have n: "scenario_replicas ! 2 =
     (JObj [(''id'', JStr ''T4''), (''db'', JStr ''d''), (''name'', JStr ''t4'')],
      JObj [(''id'', JStr ''A''), (''name'', JStr ''a''), (''tags'', JArr [JStr ''default''])],
      JObj [(''server'', JStr ''A''), (''state'', JStr ''ready'')],
      JObj [])"
    by (simp add: scenario_replicas_def)
  from replica_tuples_only_needed_fields[OF scenario_wf scenario_query_replicas m]
    scenario_wf scenario_query_replicas n
  show ?thesis by blast
qed

text \<open>
  C9 as stated fails for the two other families: the server and the table of
  \<^verbatim>\<open>query_servers_with_stats\<close> and \<^verbatim>\<open>query_tables_with_stats\<close> are the whole rows of
  \<^verbatim>\<open>server_config\<close> and \<^verbatim>\<open>table_config\<close>, and the statistics are the whole row of \<^verbatim>\<open>stats\<close>.
\<close>

theorem only_needed_fields_counterexample:
  "query_servers_with_stats scenario =
     Inr [(JObj [(''id'', JStr ''A''), (''name'', JStr ''a''), (''tags'', JArr [JStr ''default'']),
                 (''cache_size_mb'', JStr ''auto'')],
           JObj [(''id'', JArr [JStr ''server'', JStr ''A'']), (''server'', JStr ''a''),
                 (''query_engine'', JObj [(''queries_per_sec'', JNum 3)])])] \<and>
   query_tables_with_stats scenario =
     Inr [(JObj [(''id'', JStr ''T1''), (''db'', JStr ''d''), (''name'', JStr ''t1''),
                 (''write_acks'', JStr ''majority'')],
           JObj [(''id'', JArr [JStr ''table'', JStr ''T1'']), (''table'', JStr ''t1''),
                 (''query_engine'', JObj [(''read_docs_per_sec'', JNum 5)])])]"
  by (simp add: query_servers_with_stats_def query_tables_with_stats_def scenario_def
      is_server_stats_row_def server_id_def is_table_stats_row_def table_id_def
      reql_eq_def truthy_def get_all_def join_row_def)

section \<open>Joining statistics with configuration\<close>

lemma reql_filter_tag:
  assumes "\<And>x. x \<in> set xs \<Longrightarrow>
      p x = (case t x of Some v \<Rightarrow> Inr (reql_eq v a) | None \<Rightarrow> Inl ReqlNonExistenceError)"
  shows "reql_filter p xs = Inr (filter (\<lambda>x. t x = Some a) xs)"
  using assms
  by (induction xs) (auto simp: reql_eq_def truthy_def split: option.splits)

lemma reql_eq_join_key:
  assumes "\<And>x. x \<in> set xs \<Longrightarrow>
      key x = (case k x of Some v \<Rightarrow> Inr v | None \<Rightarrow> Inl ReqlNonExistenceError)"
  shows "reql_eq_join key tbl xs =
     Inr (concat (map (\<lambda>x. map (join_row x)
       (case k x of Some v \<Rightarrow> if v = JNull then [] else get_all tbl v | None \<Rightarrow> [])) xs))"
  using assms
  by (induction xs) (auto split: option.splits)

lemma array_keyedE:
  assumes "array_keyed row"
  obtains fs ks where "row = JObj fs" "map_of fs ''id'' = Some (JArr ks)"
  using assms unfolding array_keyed_def
  by (cases row) (auto split: option.splits json.splits)

lemma is_stats_row_tag:
  assumes "array_keyed row"
  shows "reql_bind (bracket row ''id'') (\<lambda>i. reql_bind (reql_nth i 0) (\<lambda>t. Inr (reql_eq t a)))
     = (case stats_tag row of Some v \<Rightarrow> Inr (reql_eq v a) | None \<Rightarrow> Inl ReqlNonExistenceError)"
proof -
  from assms obtain fs ks where "row = JObj fs" "map_of fs ''id'' = Some (JArr ks)"
    by (rule array_keyedE)
  then show ?thesis by (cases ks) (simp_all add: stats_tag_def)
qed

lemma stats_row_key:
  assumes "array_keyed row"
  shows "reql_bind (bracket row ''id'') (\<lambda>i. reql_nth i (Suc 0))
     = (case stats_key row of Some v \<Rightarrow> Inr v | None \<Rightarrow> Inl ReqlNonExistenceError)"
proof -
  from assms obtain fs ks where r: "row = JObj fs" "map_of fs ''id'' = Some (JArr ks)"
    by (rule array_keyedE)
  show ?thesis
  proof (cases ks)
    case Nil
    with r show ?thesis by (simp add: stats_key_def)
  next
    case (Cons t ks')
    with r show ?thesis by (cases ks') (simp_all add: stats_key_def)
  qed
qed

lemma join_rows_tuples:
  "reql_map (\<lambda>row. reql_bind (getitem row ''left'') (\<lambda>l.
      reql_bind (getitem row ''right'') (\<lambda>r. Inr (r, l))))
     (concat (map (\<lambda>x. map (join_row x) (G x)) xs)) =
   Inr (concat (map (\<lambda>x. map (\<lambda>cfg. (cfg, x)) (G x)) xs))"
  by (intro reql_map_concat reql_map_map) (simp add: join_row_def)

lemma query_servers_keyed:
  assumes "list_all array_keyed (stats c)"
  shows "query_servers_with_stats c =
     Inr (concat (map (\<lambda>st. map (\<lambda>cfg. (cfg, st)) (joined_with (server_config c) st))
       (filter (\<lambda>st. stats_tag st = Some (JStr ''server'')) (stats c))))"
proof -
  let ?sel = "filter (\<lambda>st. stats_tag st = Some (JStr ''server'')) (stats c)"
  have ak: "\<And>x. x \<in> set (stats c) \<Longrightarrow> array_keyed x"
    using assms by (simp add: list_all_iff)
  have f: "reql_filter is_server_stats_row (stats c) = Inr ?sel"
    by (rule reql_filter_tag) (simp add: is_server_stats_row_def is_stats_row_tag ak)
  have j: "reql_eq_join server_id (server_config c) ?sel =
      Inr (concat (map (\<lambda>x. map (join_row x) (joined_with (server_config c) x)) ?sel))"
    unfolding joined_with_def
    by (rule reql_eq_join_key) (simp add: server_id_def stats_row_key ak)
  show ?thesis
    by (simp add: query_servers_with_stats_def f j join_rows_tuples)
qed

lemma query_tables_keyed:
  assumes "list_all array_keyed (stats c)"
  shows "query_tables_with_stats c =
     Inr (concat (map (\<lambda>st. map (\<lambda>cfg. (cfg, st)) (joined_with (table_config c) st))
       (filter (\<lambda>st. stats_tag st = Some (JStr ''table'')) (stats c))))"
proof -
  let ?sel = "filter (\<lambda>st. stats_tag st = Some (JStr ''table'')) (stats c)"
  have ak: "\<And>x. x \<in> set (stats c) \<Longrightarrow> array_keyed x"
    using assms by (simp add: list_all_iff)
  have f: "reql_filter is_table_stats_row (stats c) = Inr ?sel"
    by (rule reql_filter_tag) (simp add: is_table_stats_row_def is_stats_row_tag ak)
  have j: "reql_eq_join table_id (table_config c) ?sel =
      Inr (concat (map (\<lambda>x. map (join_row x) (joined_with (table_config c) x)) ?sel))"
    unfolding joined_with_def
    by (rule reql_eq_join_key) (simp add: table_id_def stats_row_key ak)
  show ?thesis
    by (simp add: query_tables_with_stats_def f j join_rows_tuples)
qed

lemma get_all_unique:
  assumes "distinct (map primary_key tbl)" and "cfg \<in> set tbl" and "primary_key cfg = Some k"
  shows "get_all tbl k = [cfg]"
  using assms
proof (induction tbl)
  case Nil
  then show ?case by simp
next
  case (Cons x xs)
  show ?case
  proof (cases "x = cfg")
    case True
    with Cons.prems have "\<forall>y\<in>set xs. primary_key y \<noteq> Some k" by force
    then have "filter (\<lambda>row. primary_key row = Some k) xs = []" by (simp add: filter_empty_conv)
    with True Cons.prems show ?thesis by (simp add: get_all_def)
  next
    case False
    with Cons.prems have "cfg \<in> set xs" "primary_key x \<noteq> Some k" by force+
    with Cons show ?thesis by (simp add: get_all_def)
  qed
qed

lemma get_all_none:
  "\<forall>cfg\<in>set tbl. primary_key cfg \<noteq> Some k \<Longrightarrow> get_all tbl k = []"
  by (simp add: get_all_def filter_empty_conv)

lemma count_list_concat_one:
  assumes "distinct xs" and "a \<in> set xs"
    and "\<And>x. x \<in> set xs \<Longrightarrow> x \<noteq> a \<Longrightarrow> y \<notin> set (F x)"
  shows "count_list (concat (map F xs)) y = count_list (F a) y"
  using assms
proof (induction xs)
  case Nil
  then show ?case by simp
next
  case (Cons x xs)
  have app: "count_list (F x @ concat (map F xs)) y
      = count_list (F x) y + count_list (concat (map F xs)) y" by simp
  show ?case
  proof (cases "x = a")
    case True
    with Cons.prems have "\<forall>z\<in>set xs. y \<notin> set (F z)" by auto
    then have "y \<notin> set (concat (map F xs))" by auto
    then have "count_list (concat (map F xs)) y = 0" by (simp add: count_list_0_iff)
    with True show ?thesis by simp
  next
    case False
    with Cons.prems have "a \<in> set xs" "distinct xs" "y \<notin> set (F x)" by auto
    with Cons show ?thesis by (simp add: count_list_0_iff)
  qed
qed

lemma reql_get_unique:
  assumes "distinct (map primary_key tbl)" and "row \<in> set tbl" and "primary_key row = Some k"
  shows "reql_get tbl k = row"
proof (cases rule: reql_get_cases[of tbl k])
  case absent
  with assms show ?thesis by blast
next
  case (found fs)
  then have "primary_key (JObj fs) = primary_key row" using assms(3) by simp
  with assms(1,2) found(2) have "JObj fs = row"
    by (meson distinct_map inj_onD)
  with found show ?thesis by simp
qed

lemma join_single_row:
  assumes "primary_key row = Some (JArr ks)"
  shows "reql_bind
       (reql_filter (\<lambda>row. reql_bind (bracket row ''id'') (\<lambda>i.
          reql_bind (reql_nth i 0) (\<lambda>t. Inr (reql_eq t (JStr tag))))) [row])
       (reql_eq_join (\<lambda>row. reql_bind (bracket row ''id'') (\<lambda>i. reql_nth i 1)) cfgs) =
     Inr (if 2 \<le> length ks \<and> ks ! 0 = JStr tag \<and> ks ! 1 \<noteq> JNull
          then map (join_row row) (get_all cfgs (ks ! 1)) else [])"
proof -
  from assms obtain fs where r: "row = JObj fs" "map_of fs ''id'' = Some (JArr ks)"
    by (cases row) simp_all
  show ?thesis
  proof (cases ks)
    case Nil
    with r show ?thesis by simp
  next
    case (Cons t ks')
    with r show ?thesis
      by (cases ks') (simp_all add: reql_eq_def truthy_def)
  qed
qed

section \<open>Classification of the statistics and the joins\<close>

text \<open>
  C2, as amended. Classification looks at the leading elements of the identifier only. A
  row of \<^verbatim>\<open>stats\<close> whose \<^verbatim>\<open>id\<close> is an array is joined as server statistics exactly when the
  array has at least two elements, the first is \<^verbatim>\<open>'server'\<close> and the second is not \<open>null\<close>;
  the key of the join is the second element, whatever follows it. The same holds with
  \<^verbatim>\<open>'table'\<close> for table statistics. The replica statistics of \<open>T\<close> and \<open>S\<close> are the row whose
  \<^verbatim>\<open>id\<close> is exactly \<^verbatim>\<open>['table_server', T, S]\<close>. Every other row with an array as \<^verbatim>\<open>id\<close> is left
  out of the joins, and none raises.
\<close>

theorem stats_row_classification:
  assumes "row \<in> set sts" and "distinct (map primary_key sts)"
    and "primary_key row = Some (JArr ks)"
  shows "reql_bind (reql_filter is_server_stats_row [row]) (reql_eq_join server_id cfgs) =
       Inr (if 2 \<le> length ks \<and> ks ! 0 = JStr ''server'' \<and> ks ! 1 \<noteq> JNull
            then map (join_row row) (get_all cfgs (ks ! 1)) else []) \<and>
     reql_bind (reql_filter is_table_stats_row [row]) (reql_eq_join table_id cfgs) =
       Inr (if 2 \<le> length ks \<and> ks ! 0 = JStr ''table'' \<and> ks ! 1 \<noteq> JNull
            then map (join_row row) (get_all cfgs (ks ! 1)) else []) \<and>
     (reql_get sts (JArr [JStr ''table_server'', T, S]) = row) =
       (ks = [JStr ''table_server'', T, S])"
proof -
  have s: "is_server_stats_row = (\<lambda>row. reql_bind (bracket row ''id'') (\<lambda>i.
          reql_bind (reql_nth i 0) (\<lambda>t. Inr (reql_eq t (JStr ''server'')))))"
    and t: "is_table_stats_row = (\<lambda>row. reql_bind (bracket row ''id'') (\<lambda>i.
          reql_bind (reql_nth i 0) (\<lambda>t. Inr (reql_eq t (JStr ''table'')))))"
    and k: "server_id = (\<lambda>row. reql_bind (bracket row ''id'') (\<lambda>i. reql_nth i 1))"
      "table_id = (\<lambda>row. reql_bind (bracket row ''id'') (\<lambda>i. reql_nth i 1))"
    by (simp_all add: fun_eq_iff is_server_stats_row_def is_table_stats_row_def server_id_def
        table_id_def)
  have g: "(reql_get sts (JArr [JStr ''table_server'', T, S]) = row) =
       (ks = [JStr ''table_server'', T, S])"
  proof
    assume eq: "reql_get sts (JArr [JStr ''table_server'', T, S]) = row"
    show "ks = [JStr ''table_server'', T, S]"
    proof (cases rule: reql_get_cases[of sts "JArr [JStr ''table_server'', T, S]"])
      case absent
      with eq assms(3) show ?thesis by simp
    next
      case (found fs)
      with eq assms(3) show ?thesis by auto
    qed
  next
    assume "ks = [JStr ''table_server'', T, S]"
    with assms show "reql_get sts (JArr [JStr ''table_server'', T, S]) = row"
      by (simp add: reql_get_unique)
  qed
  show ?thesis
    unfolding s t k using join_single_row[OF assms(3)] g by simp
qed

theorem stats_row_classification_witness:
  "distinct (map primary_key (stats scenario)) \<and>
   reql_bind (reql_filter is_server_stats_row
       [JObj [(''id'', JArr [JStr ''cluster'']),
              (''query_engine'', JObj [(''queries_per_sec'', JNum 3)])]])
     (reql_eq_join server_id (server_config scenario)) = Inr [] \<and>
   reql_bind (reql_filter is_table_stats_row
       [JObj [(''id'', JArr [JStr ''cluster'']),
              (''query_engine'', JObj [(''queries_per_sec'', JNum 3)])]])
     (reql_eq_join table_id (table_config scenario)) = Inr [] \<and>
   reql_bind (reql_filter is_server_stats_row
       [JObj [(''id'', JArr [JStr ''server'', JStr ''A'']), (''server'', JStr ''a''),
              (''query_engine'', JObj [(''queries_per_sec'', JNum 3)])]])
     (reql_eq_join server_id (server_config scenario)) =
     Inr [join_row
       (JObj [(''id'', JArr [JStr ''server'', JStr ''A'']), (''server'', JStr ''a''),
              (''query_engine'', JObj [(''queries_per_sec'', JNum 3)])])
       (JObj [(''id'', JStr ''A''), (''name'', JStr ''a''), (''tags'', JArr [JStr ''default'']),
              (''cache_size_mb'', JStr ''auto'')])] \<and>
   reql_get (stats scenario) (JArr [JStr ''table_server'', JStr ''T1'', JStr ''A'']) \<noteq>
     JObj [(''id'', JArr [JStr ''cluster'']),
           (''query_engine'', JObj [(''queries_per_sec'', JNum 3)])]"
proof -
  let ?row = "JObj [(''id'', JArr [JStr ''cluster'']),
              (''query_engine'', JObj [(''queries_per_sec'', JNum 3)])]"
  let ?stA = "JObj [(''id'', JArr [JStr ''server'', JStr ''A'']), (''server'', JStr ''a''),
              (''query_engine'', JObj [(''queries_per_sec'', JNum 3)])]"
  have h1: "?row \<in> set (stats scenario)" and h1': "?stA \<in> set (stats scenario)"
    by (simp_all add: scenario_def)
  have h2: "distinct (map primary_key (stats scenario))" by (simp add: scenario_def)
  have h3: "primary_key ?row = Some (JArr [JStr ''cluster''])"
    and h3': "primary_key ?stA = Some (JArr [JStr ''server'', JStr ''A''])" by simp_all
  have g: "get_all (server_config scenario) (JStr ''A'') =
      [JObj [(''id'', JStr ''A''), (''name'', JStr ''a''), (''tags'', JArr [JStr ''default'']),
             (''cache_size_mb'', JStr ''auto'')]]"
    by (simp add: get_all_def scenario_def)
  from stats_row_classification[OF h1 h2 h3, of "server_config scenario" "JStr ''T1''" "JStr ''A''"]
    stats_row_classification[OF h1 h2 h3, of "table_config scenario" "JStr ''T1''" "JStr ''A''"]
    stats_row_classification[OF h1' h2 h3', of "server_config scenario" "JStr ''T1''" "JStr ''A''"]
    h2 g
  show ?thesis by simp
qed

text \<open>
  C2 as stated fails for an identifier of another shape that starts like a server's: the
  row with the \<^verbatim>\<open>id\<close> \<^verbatim>\<open>['server', 'A', 'x']\<close> is not left out, it is joined with the
  configuration of \<open>A\<close>.
\<close>

theorem stats_row_classification_counterexample:
  "query_servers_with_stats scenario_odd =
     Inr [(JObj [(''id'', JStr ''A''), (''name'', JStr ''a''), (''tags'', JArr [JStr ''default'']),
                 (''cache_size_mb'', JStr ''auto'')],
           JObj [(''id'', JArr [JStr ''server'', JStr ''A'', JStr ''x'']),
                 (''query_engine'', JObj [(''queries_per_sec'', JNum 9)])])]"
  by (simp add: query_servers_with_stats_def scenario_odd_def scenario_def
      is_server_stats_row_def server_id_def reql_eq_def truthy_def get_all_def join_row_def)

text \<open>
  C3. The inner join of \<^verbatim>\<open>query_servers_with_stats\<close>. With arrays as identifiers of the
  statistics and unique primary keys in \<^verbatim>\<open>stats\<close> and \<^verbatim>\<open>server_config\<close>, the query returns
  without an error, and for every row of \<^verbatim>\<open>stats\<close> with the \<^verbatim>\<open>id\<close> \<^verbatim>\<open>['server', S]\<close>: if
  \<^verbatim>\<open>server_config\<close> has a row for \<open>S\<close>, the pair of that row and the statistics occurs exactly
  once in the result and the statistics are paired with no other configuration; if it has
  none, the statistics occur in no tuple.
\<close>

theorem servers_with_stats_inner_join:
  assumes keyed: "list_all array_keyed (stats c)"
    and ds: "distinct (map primary_key (stats c))"
    and dc: "distinct (map primary_key (server_config c))"
  shows "\<exists>out. query_servers_with_stats c = Inr out \<and>
     (\<forall>st\<in>set (stats c). \<forall>s. primary_key st = Some (JArr [JStr ''server'', JStr s]) \<longrightarrow>
        (\<forall>cfg\<in>set (server_config c). primary_key cfg = Some (JStr s) \<longrightarrow>
           count_list out (cfg, st) = 1 \<and> (\<forall>cfg'. (cfg', st) \<in> set out \<longrightarrow> cfg' = cfg)) \<and>
        ((\<forall>cfg\<in>set (server_config c). primary_key cfg \<noteq> Some (JStr s)) \<longrightarrow>
           (\<forall>cfg. (cfg, st) \<notin> set out)))"
proof -
  let ?sel = "filter (\<lambda>st. stats_tag st = Some (JStr ''server'')) (stats c)"
  let ?F = "\<lambda>st. map (\<lambda>cfg. (cfg, st)) (joined_with (server_config c) st)"
  let ?out = "concat (map ?F ?sel)"
  have q: "query_servers_with_stats c = Inr ?out"
    using keyed by (rule query_servers_keyed)
  have mem: "(cfg, st) \<in> set ?out \<longleftrightarrow>
      st \<in> set ?sel \<and> cfg \<in> set (joined_with (server_config c) st)" for cfg st
    by auto
  have "count_list ?out (cfg, st) = 1 \<and> (\<forall>cfg'. (cfg', st) \<in> set ?out \<longrightarrow> cfg' = cfg)"
    if st: "st \<in> set (stats c)" and pk: "primary_key st = Some (JArr [JStr ''server'', JStr s])"
      and cfg: "cfg \<in> set (server_config c)" and ck: "primary_key cfg = Some (JStr s)"
    for st s cfg
  proof -
    have j: "joined_with (server_config c) st = [cfg]"
      using pk get_all_unique[OF dc cfg ck] by (simp add: joined_with_def stats_key_def)
    have sel: "st \<in> set ?sel" using st pk by (simp add: stats_tag_def)
    have "distinct ?sel" using ds by (simp add: distinct_map)
    then have "count_list ?out (cfg, st) = count_list (?F st) (cfg, st)"
      using sel by (rule count_list_concat_one) auto
    then have "count_list ?out (cfg, st) = 1" by (simp add: j)
    moreover have "\<forall>cfg'. (cfg', st) \<in> set ?out \<longrightarrow> cfg' = cfg"
      unfolding mem by (simp add: j)
    ultimately show ?thesis by blast
  qed
  moreover have "\<forall>cfg. (cfg, st) \<notin> set ?out"
    if pk: "primary_key st = Some (JArr [JStr ''server'', JStr s])"
      and none: "\<forall>cfg\<in>set (server_config c). primary_key cfg \<noteq> Some (JStr s)"
    for st s
  proof -
    have "joined_with (server_config c) st = []"
      using pk get_all_none[OF none] by (simp add: joined_with_def stats_key_def)
    then show ?thesis unfolding mem by simp
  qed
  ultimately show ?thesis using q by blast
qed


theorem servers_with_stats_inner_join_witness:
  "list_all array_keyed (stats scenario) \<and>
   distinct (map primary_key (stats scenario)) \<and>
   distinct (map primary_key (server_config scenario)) \<and>
   (\<exists>out. query_servers_with_stats scenario = Inr out \<and>
      count_list out
        (JObj [(''id'', JStr ''A''), (''name'', JStr ''a''), (''tags'', JArr [JStr ''default'']),
               (''cache_size_mb'', JStr ''auto'')],
         JObj [(''id'', JArr [JStr ''server'', JStr ''A'']), (''server'', JStr ''a''),
               (''query_engine'', JObj [(''queries_per_sec'', JNum 3)])]) = 1 \<and>
      (JObj [(''id'', JStr ''A''), (''name'', JStr ''a''), (''tags'', JArr [JStr ''default'']),
               (''cache_size_mb'', JStr ''auto'')],
       JObj [(''id'', JArr [JStr ''server'', JStr ''B'']), (''server'', JStr ''b''),
             (''query_engine'', JObj [(''queries_per_sec'', JNum 0)])]) \<notin> set out)"
proof -
  let ?cfgA = "JObj [(''id'', JStr ''A''), (''name'', JStr ''a''), (''tags'', JArr [JStr ''default'']),
               (''cache_size_mb'', JStr ''auto'')]"
  let ?stA = "JObj [(''id'', JArr [JStr ''server'', JStr ''A'']), (''server'', JStr ''a''),
               (''query_engine'', JObj [(''queries_per_sec'', JNum 3)])]"
  let ?stB = "JObj [(''id'', JArr [JStr ''server'', JStr ''B'']), (''server'', JStr ''b''),
             (''query_engine'', JObj [(''queries_per_sec'', JNum 0)])]"
  have h1: "list_all array_keyed (stats scenario)"
    by (simp add: scenario_def array_keyed_def)
  have h2: "distinct (map primary_key (stats scenario))"
    by (simp add: scenario_def)
  have h3: "distinct (map primary_key (server_config scenario))"
    by (simp add: scenario_def)
  from servers_with_stats_inner_join[OF h1 h2 h3]
  obtain out where q: "query_servers_with_stats scenario = Inr out"
    and j: "\<forall>st\<in>set (stats scenario). \<forall>s.
        primary_key st = Some (JArr [JStr ''server'', JStr s]) \<longrightarrow>
        (\<forall>cfg\<in>set (server_config scenario). primary_key cfg = Some (JStr s) \<longrightarrow>
           count_list out (cfg, st) = 1 \<and> (\<forall>cfg'. (cfg', st) \<in> set out \<longrightarrow> cfg' = cfg)) \<and>
        ((\<forall>cfg\<in>set (server_config scenario). primary_key cfg \<noteq> Some (JStr s)) \<longrightarrow>
           (\<forall>cfg. (cfg, st) \<notin> set out))"
    by blast
  have a: "?stA \<in> set (stats scenario)" "?stB \<in> set (stats scenario)"
    "?cfgA \<in> set (server_config scenario)"
    by (simp_all add: scenario_def)
  have ka: "primary_key ?stA = Some (JArr [JStr ''server'', JStr ''A''])"
    "primary_key ?stB = Some (JArr [JStr ''server'', JStr ''B''])"
    "primary_key ?cfgA = Some (JStr ''A'')" by simp_all
  have nb: "\<forall>cfg\<in>set (server_config scenario). primary_key cfg \<noteq> Some (JStr ''B'')"
    by (simp add: scenario_def)
  from j a(1) ka(1) a(3) ka(3) have "count_list out (?cfgA, ?stA) = 1" by blast
  moreover from j a(2) ka(2) nb have "(?cfgA, ?stB) \<notin> set out" by blast
  ultimately show ?thesis using q h1 h2 h3 by blast
qed

section \<open>Missing server configuration and missing statistics\<close>

lemma resolved_tuple:
  assumes wf: "list_all wf_table_status_row (table_status c)"
    and res: "\<forall>t\<in>set (table_status c). flat_records_of t \<noteq> [] \<longrightarrow>
        (\<exists>cfg\<in>set (table_config c). primary_key cfg = Some (table_id_of t))"
    and rec: "rec \<in> set (concat (map flat_records_of (table_status c)))"
  obtains u rf cf where "rec = JObj [(''table'', JStr u), (''replica'', JObj rf)]"
    "map_of cf ''id'' = Some (JStr u)"
    "replica_tuple_of c rec =
       (JObj (pluck_obj [FieldSel ''id'', FieldSel ''db'', FieldSel ''name''] cf),
        server_info c (JObj rf), JObj rf,
        stats_info c (JObj (pluck_obj [FieldSel ''id'', FieldSel ''db'', FieldSel ''name''] cf))
          (server_info c (JObj rf)))"
proof -
  from rec obtain t where t: "t \<in> set (table_status c)" and rec': "rec \<in> set (flat_records_of t)"
    by auto
  from wf t have "wf_table_status_row t" by (simp add: list_all_iff)
  from this rec' obtain u rf where shape: "rec = JObj [(''table'', JStr u), (''replica'', JObj rf)]"
    and u: "table_id_of t = JStr u"
    by (rule flat_recordE)
  from rec' have "flat_records_of t \<noteq> []" by auto
  with res t have "\<exists>cfg\<in>set (table_config c). primary_key cfg = Some (table_id_of t)"
    by blast
  then have "\<exists>cfg\<in>set (table_config c). primary_key cfg = Some (JStr u)"
    by (simp only: u)
  then obtain cf where cf: "reql_get (table_config c) (JStr u) = JObj cf"
    "map_of cf ''id'' = Some (JStr u)"
    using reql_get_present by blast
  then have "replica_tuple_of c rec =
       (JObj (pluck_obj [FieldSel ''id'', FieldSel ''db'', FieldSel ''name''] cf),
        server_info c (JObj rf), JObj rf,
        stats_info c (JObj (pluck_obj [FieldSel ''id'', FieldSel ''db'', FieldSel ''name''] cf))
          (server_info c (JObj rf)))"
    by (simp add: shape replica_tuple_of_def field_def table_info_def Let_def)
  with shape cf(2) that show ?thesis by blast
qed

lemma query_replicas_cases:
  assumes wf: "list_all wf_table_status_row (table_status c)"
  obtains (fails) "query_replicas_with_stats c = Inl ReqlNonExistenceError"
      "\<exists>t\<in>set (table_status c). flat_records_of t \<noteq> [] \<and>
         (\<forall>cfg\<in>set (table_config c). primary_key cfg \<noteq> Some (table_id_of t))"
  | (returns) "query_replicas_with_stats c =
        Inr (map (replica_tuple_of c) (concat (map flat_records_of (table_status c))))"
      "\<forall>t\<in>set (table_status c). flat_records_of t \<noteq> [] \<longrightarrow>
        (\<exists>cfg\<in>set (table_config c). primary_key cfg = Some (table_id_of t))"
proof (cases "\<exists>t\<in>set (table_status c). flat_records_of t \<noteq> [] \<and>
         (\<forall>cfg\<in>set (table_config c). primary_key cfg \<noteq> Some (table_id_of t))")
  case True
  with query_replicas_unresolved[OF wf] fails show ?thesis by blast
next
  case False
  then have res: "\<forall>t\<in>set (table_status c). flat_records_of t \<noteq> [] \<longrightarrow>
        (\<exists>cfg\<in>set (table_config c). primary_key cfg = Some (table_id_of t))" by blast
  with query_replicas_resolved[OF wf] returns show ?thesis by blast
qed

lemma stats_info_null_server:
  assumes "list_all wf_stats_row (stats c)"
  shows "stats_info c (JObj tf) (JObj [(''id'', JNull)]) = JObj []"
proof (cases "map_of tf ''id''")
  case None
  then show ?thesis by (simp add: stats_info_def)
next
  case (Some tid)
  with wf_stats_no_null[OF assms, of "JStr ''table_server''" tid] show ?thesis
    by (simp add: stats_info_def reql_get_absent)
qed

lemma scenario_flat_nth:
  assumes "flatten_table_status (table_status scenario) = Inr flat"
  shows "flat =
     [JObj [(''table'', JStr ''T1''),
            (''replica'', JObj [(''server'', JStr ''A''), (''state'', JStr ''ready'')])],
      JObj [(''table'', JStr ''T1''),
            (''replica'', JObj [(''server'', JStr ''B''), (''state'', JStr ''disconnected'')])],
      JObj [(''table'', JStr ''T4''),
            (''replica'', JObj [(''server'', JStr ''A''), (''state'', JStr ''ready'')])]]"
  using assms by (simp add: flatten_table_status_wf[OF scenario_wf] scenario_flat)


text \<open>
  C1, as amended. On \<^verbatim>\<open>table_status\<close> rows of the documented shape the query either raises
  because a table with a replica has no row in \<^verbatim>\<open>table_config\<close>, or it returns one tuple per
  flat record; and then, for every flat record whose replica's server has no row in
  \<^verbatim>\<open>server_config\<close>, the tuple of that record carries the record's replica and the server
  value \<^verbatim>\<open>{id: null}\<close>, an object with the single field \<^verbatim>\<open>id\<close>. The missing server
  configuration never makes the query raise.
\<close>

theorem missing_server_default:
  assumes wf: "list_all wf_table_status_row (table_status c)"
  shows "\<exists>flat. flatten_table_status (table_status c) = Inr flat \<and>
     ((\<exists>t\<in>set (table_status c). flat_records_of t \<noteq> [] \<and>
           (\<forall>cfg\<in>set (table_config c). primary_key cfg \<noteq> Some (table_id_of t))) \<and>
        query_replicas_with_stats c = Inl ReqlNonExistenceError \<or>
      (\<exists>out. query_replicas_with_stats c = Inr out \<and>
        length out = length flat \<and>
        (\<forall>i<length flat. \<forall>replica sid.
           bracket (flat ! i) ''replica'' = Inr replica \<and>
           bracket replica ''server'' = Inr sid \<and>
           (\<forall>cfg\<in>set (server_config c). primary_key cfg \<noteq> Some sid) \<longrightarrow>
           (\<exists>t st. out ! i = (t, JObj [(''id'', JNull)], replica, st)))))"
proof -
  let ?flat = "concat (map flat_records_of (table_status c))"
  have f: "flatten_table_status (table_status c) = Inr ?flat"
    using wf by (rule flatten_table_status_wf)
  from wf show ?thesis
  proof (cases rule: query_replicas_cases)
    case fails
    with f show ?thesis by blast
  next
    case returns
    have "\<forall>i<length ?flat. \<forall>replica sid.
           bracket (?flat ! i) ''replica'' = Inr replica \<and>
           bracket replica ''server'' = Inr sid \<and>
           (\<forall>cfg\<in>set (server_config c). primary_key cfg \<noteq> Some sid) \<longrightarrow>
           (\<exists>t st. map (replica_tuple_of c) ?flat ! i = (t, JObj [(''id'', JNull)], replica, st))"
    proof (intro allI impI, elim conjE)
      fix i replica sid
      assume i: "i < length ?flat" and r: "bracket (?flat ! i) ''replica'' = Inr replica"
        and s: "bracket replica ''server'' = Inr sid"
        and n: "\<forall>cfg\<in>set (server_config c). primary_key cfg \<noteq> Some sid"
      from i have "?flat ! i \<in> set ?flat" by (rule nth_mem)
      with wf returns(2) obtain u rf cf
        where shape: "?flat ! i = JObj [(''table'', JStr u), (''replica'', JObj rf)]"
          and tup: "replica_tuple_of c (?flat ! i) =
            (JObj (pluck_obj [FieldSel ''id'', FieldSel ''db'', FieldSel ''name''] cf),
             server_info c (JObj rf), JObj rf,
             stats_info c (JObj (pluck_obj [FieldSel ''id'', FieldSel ''db'', FieldSel ''name''] cf))
               (server_info c (JObj rf)))"
        by (rule resolved_tuple)
      from r shape have rep: "replica = JObj rf" by simp
      with s have "map_of rf ''server'' = Some sid" by (simp split: option.splits)
      from server_info_absent[OF this n] tup rep i
      show "\<exists>t st. map (replica_tuple_of c) ?flat ! i = (t, JObj [(''id'', JNull)], replica, st)"
        by simp
    qed
    with f returns(1) show ?thesis by simp
  qed
qed

theorem missing_server_default_witness:
  "list_all wf_table_status_row (table_status scenario) \<and>
   list_all (\<lambda>cfg. primary_key cfg \<noteq> Some (JStr ''B'')) (server_config scenario) \<and>
   query_replicas_with_stats scenario = Inr scenario_replicas \<and>
   (\<exists>t st. scenario_replicas ! 1 =
      (t, JObj [(''id'', JNull)],
       JObj [(''server'', JStr ''B''), (''state'', JStr ''disconnected'')], st))"
proof -
  let ?R = "JObj [(''server'', JStr ''B''), (''state'', JStr ''disconnected'')]"
  have nb: "\<forall>cfg\<in>set (server_config scenario). primary_key cfg \<noteq> Some (JStr ''B'')"
    by (simp add: scenario_def)
  from missing_server_default[OF scenario_wf] scenario_query_replicas
  obtain flat where f: "flatten_table_status (table_status scenario) = Inr flat"
    and q: "\<forall>i<length flat. \<forall>replica sid.
           bracket (flat ! i) ''replica'' = Inr replica \<and>
           bracket replica ''server'' = Inr sid \<and>
           (\<forall>cfg\<in>set (server_config scenario). primary_key cfg \<noteq> Some sid) \<longrightarrow>
           (\<exists>t st. scenario_replicas ! i = (t, JObj [(''id'', JNull)], replica, st))"
    by auto
  note flat = scenario_flat_nth[OF f]
  have l: "1 < length flat" by (simp add: flat)
  have p: "bracket (flat ! 1) ''replica'' = Inr ?R \<and> bracket ?R ''server'' = Inr (JStr ''B'')"
    by (simp add: flat)
  from q l have "\<forall>replica sid.
           bracket (flat ! 1) ''replica'' = Inr replica \<and>
           bracket replica ''server'' = Inr sid \<and>
           (\<forall>cfg\<in>set (server_config scenario). primary_key cfg \<noteq> Some sid) \<longrightarrow>
           (\<exists>t st. scenario_replicas ! 1 = (t, JObj [(''id'', JNull)], replica, st))"
    by blast
  with p nb have "\<exists>t st. scenario_replicas ! 1 = (t, JObj [(''id'', JNull)], ?R, st)"
    by blast
  with scenario_wf nb scenario_query_replicas show ?thesis
    by (simp add: list_all_iff)
qed

text \<open>
  C1 as stated fails in the server value: the tuple of the replica on the disconnected
  server \<open>B\<close> carries \<^verbatim>\<open>{id: null}\<close>, in which \<^verbatim>\<open>tags\<close> is not empty but missing, as \<^verbatim>\<open>name\<close>
  is. It is not the object \<^verbatim>\<open>{id: null, tags: []}\<close>.
\<close>

theorem missing_server_default_counterexample:
  "query_replicas_with_stats scenario = Inr scenario_replicas \<and>
   scenario_replicas ! 1 =
     (JObj [(''id'', JStr ''T1''), (''db'', JStr ''d''), (''name'', JStr ''t1'')],
      JObj [(''id'', JNull)],
      JObj [(''server'', JStr ''B''), (''state'', JStr ''disconnected'')],
      JObj []) \<and>
   bracket (JObj [(''id'', JNull)]) ''tags'' = Inl ReqlNonExistenceError \<and>
   JObj [(''id'', JNull)] \<noteq> JObj [(''id'', JNull), (''tags'', JArr [])]"
  by (simp add: scenario_query_replicas) (simp add: scenario_replicas_def)



text \<open>
  C10. Missing server configuration implies empty statistics. The identifiers in
  \<^verbatim>\<open>stats\<close> are arrays of strings, so the key \<^verbatim>\<open>['table_server', table id, null]\<close> that the
  query builds from the substituted server \<^verbatim>\<open>{id: null}\<close> is no row's key. Whenever the query
  returns, and it does unless a table with a replica has no row in \<^verbatim>\<open>table_config\<close>, the
  tuple of every flat record whose replica's server has no row in \<^verbatim>\<open>server_config\<close> carries
  the empty statistics object, whatever rows \<^verbatim>\<open>stats\<close> holds for that table and server.
\<close>

theorem missing_server_empty_stats:
  assumes wf: "list_all wf_table_status_row (table_status c)"
    and ws: "list_all wf_stats_row (stats c)"
  shows "\<exists>flat. flatten_table_status (table_status c) = Inr flat \<and>
     ((\<exists>t\<in>set (table_status c). flat_records_of t \<noteq> [] \<and>
           (\<forall>cfg\<in>set (table_config c). primary_key cfg \<noteq> Some (table_id_of t))) \<and>
        query_replicas_with_stats c = Inl ReqlNonExistenceError \<or>
      (\<exists>out. query_replicas_with_stats c = Inr out \<and>
        length out = length flat \<and>
        (\<forall>i<length flat. \<forall>replica sid.
           bracket (flat ! i) ''replica'' = Inr replica \<and>
           bracket replica ''server'' = Inr sid \<and>
           (\<forall>cfg\<in>set (server_config c). primary_key cfg \<noteq> Some sid) \<longrightarrow>
           (\<exists>t s. out ! i = (t, s, replica, JObj [])))))"
proof -
  let ?flat = "concat (map flat_records_of (table_status c))"
  have f: "flatten_table_status (table_status c) = Inr ?flat"
    using wf by (rule flatten_table_status_wf)
  from wf show ?thesis
  proof (cases rule: query_replicas_cases)
    case fails
    with f show ?thesis by blast
  next
    case returns
    have "\<forall>i<length ?flat. \<forall>replica sid.
           bracket (?flat ! i) ''replica'' = Inr replica \<and>
           bracket replica ''server'' = Inr sid \<and>
           (\<forall>cfg\<in>set (server_config c). primary_key cfg \<noteq> Some sid) \<longrightarrow>
           (\<exists>t s. map (replica_tuple_of c) ?flat ! i = (t, s, replica, JObj []))"
    proof (intro allI impI, elim conjE)
      fix i replica sid
      assume i: "i < length ?flat" and r: "bracket (?flat ! i) ''replica'' = Inr replica"
        and s: "bracket replica ''server'' = Inr sid"
        and n: "\<forall>cfg\<in>set (server_config c). primary_key cfg \<noteq> Some sid"
      from i have "?flat ! i \<in> set ?flat" by (rule nth_mem)
      with wf returns(2) obtain u rf cf
        where shape: "?flat ! i = JObj [(''table'', JStr u), (''replica'', JObj rf)]"
          and tup: "replica_tuple_of c (?flat ! i) =
            (JObj (pluck_obj [FieldSel ''id'', FieldSel ''db'', FieldSel ''name''] cf),
             server_info c (JObj rf), JObj rf,
             stats_info c (JObj (pluck_obj [FieldSel ''id'', FieldSel ''db'', FieldSel ''name''] cf))
               (server_info c (JObj rf)))"
        by (rule resolved_tuple)
      from r shape have rep: "replica = JObj rf" by simp
      with s have "map_of rf ''server'' = Some sid" by (simp split: option.splits)
      from server_info_absent[OF this n] tup rep i stats_info_null_server[OF ws]
      show "\<exists>t s. map (replica_tuple_of c) ?flat ! i = (t, s, replica, JObj [])"
        by simp
    qed
    with f returns(1) show ?thesis by simp
  qed
qed


theorem missing_server_empty_stats_witness:
  "list_all wf_table_status_row (table_status scenario) \<and>
   list_all wf_stats_row (stats scenario) \<and>
   list_all (\<lambda>cfg. primary_key cfg \<noteq> Some (JStr ''B'')) (server_config scenario) \<and>
   reql_get (stats scenario) (JArr [JStr ''table_server'', JStr ''T1'', JStr ''B'']) \<noteq> JNull \<and>
   query_replicas_with_stats scenario = Inr scenario_replicas \<and>
   (\<exists>t s. scenario_replicas ! 1 =
      (t, s, JObj [(''server'', JStr ''B''), (''state'', JStr ''disconnected'')], JObj []))"
proof -
  let ?R = "JObj [(''server'', JStr ''B''), (''state'', JStr ''disconnected'')]"
  have nb: "\<forall>cfg\<in>set (server_config scenario). primary_key cfg \<noteq> Some (JStr ''B'')"
    by (simp add: scenario_def)
  have ws: "list_all wf_stats_row (stats scenario)"
    by (simp add: scenario_def wf_stats_row_def)
  have g: "reql_get (stats scenario) (JArr [JStr ''table_server'', JStr ''T1'', JStr ''B''])
      \<noteq> JNull"
    by (simp add: scenario_def reql_get_def)
  from missing_server_empty_stats[OF scenario_wf ws] scenario_query_replicas
  obtain flat where f: "flatten_table_status (table_status scenario) = Inr flat"
    and q: "\<forall>i<length flat. \<forall>replica sid.
           bracket (flat ! i) ''replica'' = Inr replica \<and>
           bracket replica ''server'' = Inr sid \<and>
           (\<forall>cfg\<in>set (server_config scenario). primary_key cfg \<noteq> Some sid) \<longrightarrow>
           (\<exists>t s. scenario_replicas ! i = (t, s, replica, JObj []))"
    by auto
  note flat = scenario_flat_nth[OF f]
  have l: "1 < length flat" by (simp add: flat)
  have p: "bracket (flat ! 1) ''replica'' = Inr ?R \<and> bracket ?R ''server'' = Inr (JStr ''B'')"
    by (simp add: flat)
  from q l have "\<forall>replica sid.
           bracket (flat ! 1) ''replica'' = Inr replica \<and>
           bracket replica ''server'' = Inr sid \<and>
           (\<forall>cfg\<in>set (server_config scenario). primary_key cfg \<noteq> Some sid) \<longrightarrow>
           (\<exists>t s. scenario_replicas ! 1 = (t, s, replica, JObj []))"
    by blast
  with p nb have "\<exists>t s. scenario_replicas ! 1 = (t, s, ?R, JObj [])" by blast
  with scenario_wf ws nb g scenario_query_replicas show ?thesis
    by (simp add: list_all_iff)
qed


end
